theory Spec2Isabelle
  imports Complex_Main
begin

section \<open>JavaScript strings\<close>

text \<open>
  Strings are lists of characters. The operations below are the ones the identity
  resolution code uses: \<^verbatim>\<open>split\<close>, \<^verbatim>\<open>indexOf\<close>, \<^verbatim>\<open>lastIndexOf\<close> and \<^verbatim>\<open>substring\<close>,
  with the results JavaScript gives (\<^verbatim>\<open>-1\<close> for a character that does not occur,
  \<^verbatim>\<open>substring\<close> clamping its arguments to the string and swapping them when needed).
\<close>

fun split_on :: "char \<Rightarrow> string \<Rightarrow> string list" where
  "split_on c [] = [[]]"
| "split_on c (x # xs) =
     (if x = c then [] # split_on c xs
      else (case split_on c xs of [] \<Rightarrow> [[x]] | s # ss \<Rightarrow> (x # s) # ss))"

fun indexOf :: "string \<Rightarrow> char \<Rightarrow> int" where
  "indexOf [] c = -1"
| "indexOf (x # xs) c =
     (if x = c then 0 else (let i = indexOf xs c in if i < 0 then -1 else i + 1))"

fun lastIndexOf :: "string \<Rightarrow> char \<Rightarrow> int" where
  "lastIndexOf [] c = -1"
| "lastIndexOf (x # xs) c =
     (let i = lastIndexOf xs c in
      if 0 \<le> i then i + 1 else if x = c then 0 else -1)"

definition substring :: "string \<Rightarrow> int \<Rightarrow> int \<Rightarrow> string" where
  "substring s a b =
     (let n = int (length s);
          a' = max 0 (min a n);
          b' = max 0 (min b n);
          lo = min a' b';
          hi = max a' b'
      in take (nat (hi - lo)) (drop (nat lo) s))"

section \<open>Errors and configuration\<close>

text \<open>
  A thrown JavaScript error is its \<^verbatim>\<open>name\<close> and its \<^verbatim>\<open>message\<close>. A function that can
  throw returns \<open>js_error + 'a\<close>, with \<open>Inl\<close> the thrown error.
\<close>

datatype js_error = JsError (err_name: string) (err_message: string)

definition Error :: "string \<Rightarrow> js_error" where
  "Error msg = JsError ''Error'' msg"

definition TypeError :: "string \<Rightarrow> js_error" where
  "TypeError msg = JsError ''TypeError'' msg"

text \<open>
  The configuration object of \<^verbatim>\<open>config.js\<close>, with the fields the code below reads.
  \<^verbatim>\<open>apiKey\<close> and \<^verbatim>\<open>projectId\<close> come from the environment and may be \<^verbatim>\<open>undefined\<close>
  (\<open>None\<close>); \<open>logging_enabled\<close> is \<^verbatim>\<open>logging.enabled\<close>.
\<close>

record http_config =
  timeout :: int
  retries :: int
  retryDelay :: int

record webhook_config =
  path :: string

record config =
  apiUrl :: string
  apiKey :: "string option"
  projectId :: "string option"
  webhook :: webhook_config
  http :: http_config
  logging_enabled :: bool

text \<open>JavaScript truthiness of an optional string: \<^verbatim>\<open>undefined\<close> and \<^verbatim>\<open>''\<close> are falsy.\<close>

definition truthy_str :: "string option \<Rightarrow> bool" where
  "truthy_str v = (case v of None \<Rightarrow> False | Some s \<Rightarrow> s \<noteq> [])"

section \<open>Identity resolution\<close>

text \<open>
  \<^verbatim>\<open>PortableKnowledgeAiMcpServer.extractProjectFromApiKey\<close>: \<open>None\<close> is the \<^verbatim>\<open>null\<close> it
  returns for a missing key or a key of fewer than three parts.
\<close>

definition extractProjectFromApiKey :: "config \<Rightarrow> string option" where
  "extractProjectFromApiKey cfg =
     (case apiKey cfg of
        None \<Rightarrow> None
      | Some key \<Rightarrow>
          if key = [] then None
          else (let parts = split_on CHR ''-'' key
                in if 3 \<le> length parts then Some (parts ! 1) else None))"

text \<open>
  The part of the server's constructor that resolves the project:
  \<^verbatim>\<open>this.config.projectId || this.extractProjectFromApiKey()\<close>, then the throw when the
  result is falsy.
\<close>

definition server_currentProject :: "config \<Rightarrow> js_error + string" where
  "server_currentProject cfg =
     (let currentProject =
            (if truthy_str (projectId cfg) then projectId cfg
             else extractProjectFromApiKey cfg)
      in case currentProject of
           None \<Rightarrow> Inl (Error ''No valid project found. Set PROJECT_ID or use API key format: role-project-secret'')
         | Some p \<Rightarrow>
             if p = []
             then Inl (Error ''No valid project found. Set PROJECT_ID or use API key format: role-project-secret'')
             else Inr p)"

text \<open>\<^verbatim>\<open>KnowledgeAiMcpClient.getProjectFromApiKey\<close>.\<close>

definition getProjectFromApiKey :: "config \<Rightarrow> js_error + string" where
  "getProjectFromApiKey cfg =
     (case (if truthy_str (projectId cfg) then projectId cfg else None) of
        Some p \<Rightarrow> Inr p
      | None \<Rightarrow>
         (case apiKey cfg of
            None \<Rightarrow> Inl (Error ''No API key configured'')
          | Some key \<Rightarrow>
              if key = [] then Inl (Error ''No API key configured'')
              else (let parts = split_on CHR ''-'' key
                    in if 3 \<le> length parts
                       then (let firstDashIndex = indexOf key CHR ''-'';
                                 lastDashIndex = lastIndexOf key CHR ''-''
                             in if firstDashIndex \<noteq> lastDashIndex \<and> 0 \<le> firstDashIndex
                                then Inr (substring key (firstDashIndex + 1) lastDashIndex)
                                else Inr (parts ! 1))
                       else Inr ''default'')))"

section \<open>JavaScript values and the platform\<close>

text \<open>
  The values that travel as JSON, with \<^verbatim>\<open>undefined\<close>. An object is the list of its
  own properties in insertion order.
\<close>

datatype jsval =
    Undefined
  | Null
  | Bool bool
  | Num rat
  | Str string
  | Arr "jsval list"
  | Obj "(string \<times> jsval) list"

definition obj_get :: "(string \<times> jsval) list \<Rightarrow> string \<Rightarrow> jsval" where
  "obj_get kvs k = (case map_of kvs k of None \<Rightarrow> Undefined | Some v \<Rightarrow> v)"

text \<open>
  Property access \<^verbatim>\<open>v.k\<close>: a \<^verbatim>\<open>TypeError\<close> on \<^verbatim>\<open>undefined\<close> and \<^verbatim>\<open>null\<close>, the own
  property of an object, \<^verbatim>\<open>length\<close> of an array or a string, \<^verbatim>\<open>undefined\<close> otherwise.
\<close>

definition get_prop :: "jsval \<Rightarrow> string \<Rightarrow> js_error + jsval" where
  "get_prop v k =
     (case v of
        Undefined \<Rightarrow> Inl (TypeError (''Cannot read properties of undefined (reading '' @ k @ '')''))
      | Null \<Rightarrow> Inl (TypeError (''Cannot read properties of null (reading '' @ k @ '')''))
      | Obj kvs \<Rightarrow> Inr (obj_get kvs k)
      | Arr xs \<Rightarrow> Inr (if k = ''length'' then Num (of_nat (length xs)) else Undefined)
      | Str x \<Rightarrow> Inr (if k = ''length'' then Num (of_nat (length x)) else Undefined)
      | _ \<Rightarrow> Inr Undefined)"

text \<open>
  What the code takes from the JavaScript platform and does not define itself: the
  conversion of a value to a string (template literals, \<^verbatim>\<open>String(v)\<close>),
  \<^verbatim>\<open>encodeURIComponent\<close>, \<^verbatim>\<open>JSON.parse\<close> (\<open>None\<close> when it throws a \<^verbatim>\<open>SyntaxError\<close>) and
  the clock (\<^verbatim>\<open>new Date().toISOString()\<close>, read as one value for the length of a
  call).
\<close>

record platform =
  toStr :: "jsval \<Rightarrow> string"
  encodeURIComponent :: "string \<Rightarrow> string"
  JSON_parse :: "string \<Rightarrow> jsval option"
  now :: string

section \<open>Outbound HTTP\<close>

text \<open>
  A request body is either a value passed as it is, or the text \<^verbatim>\<open>JSON.stringify(v)\<close>
  of a value, kept as the value it renders.
\<close>

datatype body = RawBody jsval | JsonText jsval

record fetch_request =
  url :: string
  f_method :: string
  f_headers :: "(string \<times> string option) list"
  f_body :: "body option"
  f_timeout :: "int option"

record response =
  status :: nat
  statusText :: string
  content_type :: "string option"
  body_text :: string
  body_json :: "jsval option"

definition ok :: "response \<Rightarrow> bool" where
  "ok r = (200 \<le> status r \<and> status r \<le> 299)"

datatype fetch_outcome = Rejected js_error | Resolved response

text \<open>
  The outside world as the program sees it: the trace of what it did, in order, a request
  issued with \<^verbatim>\<open>fetch\<close>, a delay waited with \<^verbatim>\<open>setTimeout\<close>, or a line written by the
  server's \<^verbatim>\<open>log\<close> method (its timestamp, its level and its message). The remote side
  answers the \<open>n\<close>-th request of a run with \<open>remote n req\<close>.
\<close>

datatype action = Fetched fetch_request | Slept int | Logged string string string

type_synonym trace = "action list"

fun requests :: "trace \<Rightarrow> fetch_request list" where
  "requests [] = []"
| "requests (Fetched r # w) = r # requests w"
| "requests (Slept ms # w) = requests w"
| "requests (Logged ts level msg # w) = requests w"

type_synonym remote = "nat \<Rightarrow> fetch_request \<Rightarrow> fetch_outcome"

definition fetch :: "remote \<Rightarrow> fetch_request \<Rightarrow> trace \<Rightarrow> fetch_outcome \<times> trace" where
  "fetch rem req w = (rem (length (requests w)) req, w @ [Fetched req])"

definition sleep :: "int \<Rightarrow> trace \<Rightarrow> trace" where
  "sleep ms w = w @ [Slept ms]"

record request_options =
  opt_method :: "string option"
  opt_headers :: "(string \<times> string option) list option"
  opt_body :: "body option"

definition no_options :: request_options where
  "no_options = \<lparr>opt_method = None, opt_headers = None, opt_body = None\<rparr>"

section \<open>The client's request with retries\<close>

text \<open>
  \<^verbatim>\<open>KnowledgeAiMcpClient.apiRequest\<close>. \<open>client_fetchOptions\<close> is the request it builds;
  \<open>client_attempt\<close> is the body of its \<^verbatim>\<open>try\<close> block; \<open>client_retry_loop\<close> is the
  \<^verbatim>\<open>while\<close> loop, with \<open>Inr None\<close> the \<^verbatim>\<open>undefined\<close> returned when the loop is never
  entered.
\<close>

definition client_fetchOptions :: "config \<Rightarrow> string \<Rightarrow> request_options \<Rightarrow> fetch_request" where
  "client_fetchOptions cfg endpoint options =
     \<lparr>url = apiUrl cfg @ endpoint,
      f_method = (case opt_method options of None \<Rightarrow> ''GET'' | Some m \<Rightarrow> m),
      f_headers = (case opt_headers options of
                     None \<Rightarrow> [(''Content-Type'', Some ''application/json''),
                              (''X-API-Key'', apiKey cfg),
                              (''User-Agent'', Some ''Knowledge-AI-MCP-Portable/1.0'')]
                   | Some h \<Rightarrow> h),
      f_body = opt_body options,
      f_timeout = Some (timeout (http cfg))\<rparr>"

definition client_attempt :: "platform \<Rightarrow> remote \<Rightarrow> fetch_request \<Rightarrow> trace \<Rightarrow> (js_error + response) \<times> trace" where
  "client_attempt p rem req w =
     (case fetch rem req w of
        (Rejected e, w1) \<Rightarrow> (Inl e, w1)
      | (Resolved r, w1) \<Rightarrow>
          if \<not> ok r
          then (Inl (Error (''HTTP '' @ toStr p (Num (of_nat (status r))) @ '': '' @ statusText r)), w1)
          else (Inr r, w1))"

function client_retry_loop ::
  "platform \<Rightarrow> remote \<Rightarrow> config \<Rightarrow> fetch_request \<Rightarrow> int \<Rightarrow> trace \<Rightarrow> (js_error + response option) \<times> trace" where
  "client_retry_loop p rem cfg req attempt w =
     (if attempt \<le> retries (http cfg)
      then (case client_attempt p rem req w of
              (Inr r, w1) \<Rightarrow> (Inr (Some r), w1)
            | (Inl e, w1) \<Rightarrow>
                if attempt + 1 > retries (http cfg) then (Inl e, w1)
                else client_retry_loop p rem cfg req (attempt + 1)
                       (sleep (retryDelay (http cfg) * (attempt + 1)) w1))
      else (Inr None, w))"
  by pat_completeness auto
termination
  by (relation "measure (\<lambda>(p, rem, cfg, req, attempt, w). nat (retries (http cfg) + 1 - attempt))") auto

declare client_retry_loop.simps [simp del]

definition client_apiRequest ::
  "platform \<Rightarrow> remote \<Rightarrow> config \<Rightarrow> string \<Rightarrow> request_options \<Rightarrow> trace \<Rightarrow> (js_error + response option) \<times> trace" where
  "client_apiRequest p rem cfg endpoint options w =
     client_retry_loop p rem cfg (client_fetchOptions cfg endpoint options) 0 w"

section \<open>The webhook receiver\<close>

text \<open>
  An inbound HTTP request with the chunks of its body, and the response written to it.
  A response body is \<open>None\<close> when \<^verbatim>\<open>res.end()\<close> is called with no argument.
\<close>

record http_request =
  req_method :: string
  req_url :: string
  req_chunks :: "string list"

record http_response =
  res_status :: nat
  res_headers :: "(string \<times> string) list"
  res_body :: "body option"

text \<open>
  The event channel. \<open>emit\<close> records the event; a listener of the embedding application
  may throw, which \<open>throwing name payload\<close> gives (\<open>None\<close> when every listener returns).
\<close>

type_synonym events = "(string \<times> jsval) list"
type_synonym listeners = "string \<Rightarrow> jsval \<Rightarrow> js_error option"

definition emit :: "listeners \<Rightarrow> string \<Rightarrow> jsval \<Rightarrow> events \<Rightarrow> (js_error + unit) \<times> events" where
  "emit throwing name payload evs =
     (case throwing name payload of
        Some e \<Rightarrow> (Inl e, evs @ [(name, payload)])
      | None \<Rightarrow> (Inr (), evs @ [(name, payload)]))"

text \<open>One \<^verbatim>\<open>case\<close> of the \<^verbatim>\<open>switch\<close> of \<^verbatim>\<open>handleWebhook\<close>: \<^verbatim>\<open>this.emit(name, data.data)\<close>.\<close>

definition emit_data :: "listeners \<Rightarrow> string \<Rightarrow> jsval \<Rightarrow> events \<Rightarrow> (js_error + unit) \<times> events" where
  "emit_data throwing name data evs =
     (case get_prop data ''data'' of
        Inl e \<Rightarrow> (Inl e, evs)
      | Inr payload \<Rightarrow> emit throwing name payload evs)"

text \<open>The \<^verbatim>\<open>switch (data.event)\<close>, which has no \<^verbatim>\<open>default\<close>.\<close>

definition emit_by_kind :: "listeners \<Rightarrow> jsval \<Rightarrow> jsval \<Rightarrow> events \<Rightarrow> (js_error + unit) \<times> events" where
  "emit_by_kind throwing event data evs =
     (if event = Str ''created'' then emit_data throwing ''noteCreated'' data evs
      else if event = Str ''updated'' then emit_data throwing ''noteUpdated'' data evs
      else if event = Str ''deleted'' then emit_data throwing ''noteDeleted'' data evs
      else (Inr (), evs))"

text \<open>The \<^verbatim>\<open>try\<close> block of \<^verbatim>\<open>handleWebhook\<close> from the parsed body on.\<close>

definition webhook_dispatch :: "listeners \<Rightarrow> jsval \<Rightarrow> events \<Rightarrow> (js_error + unit) \<times> events" where
  "webhook_dispatch throwing data evs =
     (case get_prop data ''event'' of
        Inl e \<Rightarrow> (Inl e, evs)
      | Inr event \<Rightarrow>
          (case emit_by_kind throwing event data evs of
             (Inl e, evs1) \<Rightarrow> (Inl e, evs1)
           | (Inr _, evs1) \<Rightarrow> emit throwing ''webhookReceived'' data evs1))"

text \<open>
  \<^verbatim>\<open>handleWebhook\<close>, at the \<^verbatim>\<open>end\<close> of the request: the chunks are concatenated and
  parsed; any error thrown in the \<^verbatim>\<open>try\<close> block gives the \<^verbatim>\<open>400\<close> of the \<^verbatim>\<open>catch\<close>
  block (whose \<^verbatim>\<open>console.error\<close> is not modelled).
\<close>

definition handleWebhook :: "platform \<Rightarrow> listeners \<Rightarrow> http_request \<Rightarrow> events \<Rightarrow> http_response \<times> events" where
  "handleWebhook p throwing req evs =
     (case JSON_parse p (concat (req_chunks req)) of
        None \<Rightarrow> (\<lparr>res_status = 400, res_headers = [], res_body = None\<rparr>, evs)
      | Some data \<Rightarrow>
          (case webhook_dispatch throwing data evs of
             (Inl e, evs1) \<Rightarrow> (\<lparr>res_status = 400, res_headers = [], res_body = None\<rparr>, evs1)
           | (Inr _, evs1) \<Rightarrow>
               (\<lparr>res_status = 200,
                 res_headers = [(''Content-Type'', ''application/json'')],
                 res_body = Some (JsonText (Obj [(''success'', Bool True)]))\<rparr>, evs1)))"

text \<open>The request listener installed by \<^verbatim>\<open>setupWebhookReceiver\<close>.\<close>

definition webhook_listener :: "platform \<Rightarrow> listeners \<Rightarrow> config \<Rightarrow> http_request \<Rightarrow> events \<Rightarrow> http_response \<times> events" where
  "webhook_listener p throwing cfg req evs =
     (if req_method req = ''POST'' \<and> req_url req = path (webhook cfg)
      then handleWebhook p throwing req evs
      else (\<lparr>res_status = 404, res_headers = [], res_body = None\<rparr>, evs))"

section \<open>Computations with effects\<close>

text \<open>
  An \<^verbatim>\<open>async\<close> method is a function of the trace so far that returns a value or a thrown
  error (a rejected promise), with the trace after it. \<open>io_catch\<close> is \<^verbatim>\<open>try\<close>/\<^verbatim>\<open>catch\<close>.
\<close>

type_synonym 'a io = "trace \<Rightarrow> (js_error + 'a) \<times> trace"

definition io_return :: "'a \<Rightarrow> 'a io" where
  "io_return x w = (Inr x, w)"

definition io_throw :: "js_error \<Rightarrow> 'a io" where
  "io_throw e w = (Inl e, w)"

definition io_lift :: "js_error + 'a \<Rightarrow> 'a io" where
  "io_lift r w = (r, w)"

definition io_bind :: "'a io \<Rightarrow> ('a \<Rightarrow> 'b io) \<Rightarrow> 'b io" where
  "io_bind m f w = (case m w of (Inl e, w1) \<Rightarrow> (Inl e, w1) | (Inr x, w1) \<Rightarrow> f x w1)"

definition io_catch :: "'a io \<Rightarrow> (js_error \<Rightarrow> 'a io) \<Rightarrow> 'a io" where
  "io_catch m h w = (case m w of (Inl e, w1) \<Rightarrow> h e w1 | (Inr x, w1) \<Rightarrow> (Inr x, w1))"

section \<open>BaseHandler\<close>

text \<open>\<^verbatim>\<open>String.prototype.includes\<close> and \<^verbatim>\<open>Array.prototype.join\<close>.\<close>

fun str_includes :: "string \<Rightarrow> string \<Rightarrow> bool" where
  "str_includes [] sub = (sub = [])"
| "str_includes (x # xs) sub = (take (length sub) (x # xs) = sub \<or> str_includes xs sub)"

fun join :: "string list \<Rightarrow> string \<Rightarrow> string" where
  "join [] sep = []"
| "join [x] sep = x"
| "join (x # y # ys) sep = x @ sep @ join (y # ys) sep"

text \<open>JavaScript truthiness of a value.\<close>

definition truthy :: "jsval \<Rightarrow> bool" where
  "truthy v = (v \<noteq> Undefined \<and> v \<noteq> Null \<and> v \<noteq> Bool False \<and> v \<noteq> Num 0 \<and> v \<noteq> Str [])"

text \<open>
  The request \<^verbatim>\<open>BaseHandler.apiRequest\<close> passes to \<^verbatim>\<open>fetch\<close>. The \<^verbatim>\<open>headers\<close> it builds
  are replaced by the caller's when the options carry some (\<^verbatim>\<open>...options\<close> comes last);
  an object given as body is replaced by its JSON text. No \<^verbatim>\<open>timeout\<close> is set.
\<close>

definition typeof_object :: "jsval \<Rightarrow> bool" where
  "typeof_object v = (case v of Obj kvs \<Rightarrow> True | Arr xs \<Rightarrow> True | Null \<Rightarrow> True | _ \<Rightarrow> False)"

definition base_body :: "body option \<Rightarrow> body option" where
  "base_body b =
     (case b of
        Some (RawBody v) \<Rightarrow> if truthy v \<and> typeof_object v then Some (JsonText v) else Some (RawBody v)
      | other \<Rightarrow> other)"

definition base_fetchOptions :: "config \<Rightarrow> string \<Rightarrow> request_options \<Rightarrow> fetch_request" where
  "base_fetchOptions cfg endpoint options =
     \<lparr>url = apiUrl cfg @ endpoint,
      f_method = (case opt_method options of None \<Rightarrow> ''GET'' | Some m \<Rightarrow> m),
      f_headers = (case opt_headers options of
                     None \<Rightarrow> (''Content-Type'', Some ''application/json'')
                              # (if truthy_str (apiKey cfg) then [(''X-API-Key'', apiKey cfg)] else [])
                   | Some h \<Rightarrow> h),
      f_body = base_body (opt_body options),
      f_timeout = None\<rparr>"

text \<open>The \<^verbatim>\<open>try\<close> block of \<^verbatim>\<open>BaseHandler.apiRequest\<close>, and its \<^verbatim>\<open>catch\<close> block.\<close>

definition base_try :: "platform \<Rightarrow> remote \<Rightarrow> fetch_request \<Rightarrow> jsval io" where
  "base_try p rem req w =
     (case fetch rem req w of
        (Rejected e, w1) \<Rightarrow> (Inl e, w1)
      | (Resolved r, w1) \<Rightarrow>
          if \<not> ok r
          then (Inl (Error (''API request failed ('' @ toStr p (Num (of_nat (status r))) @ ''): ''
                            @ body_text r)), w1)
          else if (case content_type r of
                     None \<Rightarrow> False
                   | Some contentType \<Rightarrow> contentType \<noteq> [] \<and> str_includes contentType ''application/json'')
          then (case body_json r of
                  Some v \<Rightarrow> (Inr v, w1)
                | None \<Rightarrow> (Inl (JsError ''SyntaxError'' (''Unexpected token in JSON: '' @ body_text r)), w1))
          else (Inr (Str (body_text r)), w1))"

definition base_catch :: "config \<Rightarrow> js_error \<Rightarrow> jsval io" where
  "base_catch cfg error =
     (if err_name error = ''TypeError'' \<and> str_includes (err_message error) ''fetch''
      then io_throw (Error (''Failed to connect to API at '' @ apiUrl cfg
                            @ ''. Please ensure the server is running.''))
      else io_throw error)"

definition base_apiRequest :: "platform \<Rightarrow> remote \<Rightarrow> config \<Rightarrow> string \<Rightarrow> request_options \<Rightarrow> jsval io" where
  "base_apiRequest p rem cfg endpoint options =
     io_catch (base_try p rem (base_fetchOptions cfg endpoint options)) (base_catch cfg)"

text \<open>
  The arguments of a tool call: \<open>None\<close> when the request carries no \<^verbatim>\<open>arguments\<close>
  (\<^verbatim>\<open>undefined\<close>), the properties of the argument object otherwise.
\<close>

type_synonym params = "(string \<times> jsval) list option"

text \<open>\<^verbatim>\<open>!(key in params) || params[key] === undefined\<close>, for an argument object.\<close>

definition is_missing :: "(string \<times> jsval) list \<Rightarrow> string \<Rightarrow> bool" where
  "is_missing kvs key = (map_of kvs key = None \<or> map_of kvs key = Some Undefined)"

text \<open>
  \<^verbatim>\<open>BaseHandler.validateParams\<close>. On \<^verbatim>\<open>undefined\<close> the \<^verbatim>\<open>in\<close> operator throws a
  \<^verbatim>\<open>TypeError\<close> at the first required key.
\<close>

definition validateParams :: "params \<Rightarrow> string list \<Rightarrow> js_error + unit" where
  "validateParams ps required =
     (case ps of
        None \<Rightarrow>
          (case required of
             [] \<Rightarrow> Inr ()
           | key # _ \<Rightarrow> Inl (TypeError (''Cannot use 'in' operator to search for ''
                                       @ key @ '' in undefined'')))
      | Some kvs \<Rightarrow>
          (let missing = filter (is_missing kvs) required
           in if length missing > 0
              then Inl (Error (''Missing required parameters: '' @ join missing '', ''))
              else Inr ()))"

text \<open>\<^verbatim>\<open>BaseHandler.formatError\<close>. An \<^verbatim>\<open>Error\<close> object itself, which
  \<^verbatim>\<open>error.message || error\<close> gives for an empty message, is the empty object it renders to.\<close>

definition formatError :: "platform \<Rightarrow> js_error \<Rightarrow> string \<Rightarrow> jsval" where
  "formatError p error tool =
     Obj [(''success'', Bool False),
          (''error'', if err_message error \<noteq> [] then Str (err_message error) else Obj []),
          (''tool'', Str tool),
          (''timestamp'', Str (now p))]"

definition getProjectEndpoint :: "platform \<Rightarrow> jsval \<Rightarrow> string \<Rightarrow> string" where
  "getProjectEndpoint p project sub = ''/api/projects/'' @ encodeURIComponent p (toStr p project) @ sub"

text \<open>What a handler is given besides the arguments.\<close>

record tool_context =
  currentProject :: string

text \<open>\<^verbatim>\<open>params.projectId || context.currentProject\<close>, for an argument object.\<close>

definition project_of :: "(string \<times> jsval) list \<Rightarrow> tool_context \<Rightarrow> jsval" where
  "project_of kvs ctx =
     (if truthy (obj_get kvs ''projectId'') then obj_get kvs ''projectId'' else Str (currentProject ctx))"

text \<open>The same read on the arguments of a call, which throws when there are none.\<close>

definition read_params :: "params \<Rightarrow> string \<Rightarrow> js_error + (string \<times> jsval) list" where
  "read_params ps key =
     (case ps of
        None \<Rightarrow> Inl (TypeError (''Cannot read properties of undefined (reading '' @ key @ '')''))
      | Some kvs \<Rightarrow> Inr kvs)"

section \<open>ResponseBuilder\<close>

text \<open>
  The methods of the portable \<^verbatim>\<open>ResponseBuilder\<close> class, by name: \<^verbatim>\<open>success\<close>, \<^verbatim>\<open>error\<close>
  and \<^verbatim>\<open>textResponse\<close>, with their default parameters. Every other property of an
  instance is \<^verbatim>\<open>undefined\<close>, and calling it throws a \<^verbatim>\<open>TypeError\<close>.
\<close>

definition arg :: "jsval list \<Rightarrow> nat \<Rightarrow> jsval" where
  "arg args i = (if i < length args then args ! i else Undefined)"

definition arg_or :: "jsval list \<Rightarrow> nat \<Rightarrow> jsval \<Rightarrow> jsval" where
  "arg_or args i dflt = (if arg args i = Undefined then dflt else arg args i)"

definition ResponseBuilder :: "string \<Rightarrow> (jsval list \<Rightarrow> jsval) option" where
  "ResponseBuilder m =
     (if m = ''success''
      then Some (\<lambda>args. Obj [(''success'', Bool True), (''message'', arg_or args 1 (Str ''Success'')),
                            (''data'', arg args 0)])
      else if m = ''error''
      then Some (\<lambda>args. Obj [(''success'', Bool False), (''message'', arg args 0),
                            (''details'', arg_or args 1 Null)])
      else if m = ''textResponse''
      then Some (\<lambda>args. Obj [(''content'', Arr [Obj [(''type'', Str ''text''), (''text'', arg args 0)]])])
      else None)"

definition call_method :: "(string \<Rightarrow> (jsval list \<Rightarrow> jsval) option) \<Rightarrow> string \<Rightarrow> string \<Rightarrow> jsval list \<Rightarrow> js_error + jsval" where
  "call_method obj recv m args =
     (case obj m of
        None \<Rightarrow> Inl (TypeError (recv @ ''.'' @ m @ '' is not a function''))
      | Some f \<Rightarrow> Inr (f args))"

section \<open>The tool handlers\<close>

text \<open>
  A tool descriptor of \<^verbatim>\<open>getTools()\<close>: the name and the \<^verbatim>\<open>required\<close> array of its input
  schema (\<open>[]\<close> when the schema has none). Descriptions and property types are data
  that no operation reads.
\<close>

record tool =
  tool_name :: string
  required :: "string list"

text \<open>
  Each handler's \<^verbatim>\<open>handleTool\<close> is modelled with its \<^verbatim>\<open>switch\<close>, its \<^verbatim>\<open>try\<close>/\<^verbatim>\<open>catch\<close>
  and, for each tool, the call of \<^verbatim>\<open>validateParams\<close> that opens the tool's method.
  \<^verbatim>\<open>NoteHandler.getNote\<close> is modelled in full. For the other methods, the statements
  after the \<^verbatim>\<open>validateParams\<close> call (the whole method where there is no such call) are
  the parameter \<open>rest\<close>: any computation of the tool name, the arguments and the
  context.
\<close>

type_synonym rest = "string \<Rightarrow> params \<Rightarrow> tool_context \<Rightarrow> jsval io"

definition validated :: "params \<Rightarrow> string list \<Rightarrow> jsval io \<Rightarrow> jsval io" where
  "validated ps keys m = io_bind (io_lift (validateParams ps keys)) (\<lambda>_. m)"

subsection \<open>NoteHandler\<close>

definition note_tools :: "string list" where
  "note_tools = [''list_notes'', ''get_note'', ''create_note'', ''update_note'', ''delete_note'',
     ''generate_contexts'', ''get_context_stats'', ''inspect_content'', ''preview_update'',
     ''validate_update'', ''suggest_patterns'']"

definition note_getTools :: "tool list" where
  "note_getTools =
     [\<lparr>tool_name = ''list_notes'', required = []\<rparr>,
      \<lparr>tool_name = ''get_note'', required = [''id'']\<rparr>,
      \<lparr>tool_name = ''create_note'', required = [''title'', ''content'']\<rparr>,
      \<lparr>tool_name = ''update_note'', required = [''id'']\<rparr>,
      \<lparr>tool_name = ''delete_note'', required = [''id'']\<rparr>,
      \<lparr>tool_name = ''generate_contexts'', required = []\<rparr>,
      \<lparr>tool_name = ''get_context_stats'', required = []\<rparr>,
      \<lparr>tool_name = ''inspect_content'', required = [''id'']\<rparr>,
      \<lparr>tool_name = ''preview_update'', required = [''id'', ''old_str'', ''new_str'']\<rparr>,
      \<lparr>tool_name = ''validate_update'', required = [''id'', ''old_str'', ''new_str'']\<rparr>,
      \<lparr>tool_name = ''suggest_patterns'', required = [''id'', ''pattern'']\<rparr>]"

text \<open>\<^verbatim>\<open>NoteHandler.getNote\<close>. The call \<^verbatim>\<open>this.responseBuilder.buildResponse(result.data,
  'get_note')\<close> evaluates its argument and then looks the method up in the class.\<close>

definition getNote :: "platform \<Rightarrow> remote \<Rightarrow> config \<Rightarrow> jsval \<Rightarrow> (string \<times> jsval) list \<Rightarrow> jsval io" where
  "getNote p rem cfg project kvs =
     io_bind (io_lift (validateParams (Some kvs) [''id''])) (\<lambda>_.
     io_bind (base_apiRequest p rem cfg
                (getProjectEndpoint p project
                   (''/notes/'' @ encodeURIComponent p (toStr p (obj_get kvs ''id''))))
                no_options) (\<lambda>result.
     io_bind (io_lift (get_prop result ''data'')) (\<lambda>d.
     io_bind (io_lift (call_method ResponseBuilder ''this.responseBuilder'' ''buildResponse''
                         [d, Str ''get_note''])) (\<lambda>streamlinedResponse.
     io_bind (io_lift (get_prop streamlinedResponse ''data'')) (\<lambda>sd.
     io_bind (io_lift (get_prop streamlinedResponse ''message'')) (\<lambda>sm.
     io_return (Obj [(''success'', Bool True), (''data'', sd), (''message'', sm),
                     (''timestamp'', Str (now p))])))))))"

definition note_switch :: "rest \<Rightarrow> platform \<Rightarrow> remote \<Rightarrow> config \<Rightarrow> string \<Rightarrow> (string \<times> jsval) list \<Rightarrow> tool_context \<Rightarrow> jsval io" where
  "note_switch rest p rem cfg toolName kvs ctx =
     (if toolName = ''list_notes'' then rest ''list_notes'' (Some kvs) ctx
      else if toolName = ''get_note'' then getNote p rem cfg (project_of kvs ctx) kvs
      else if toolName = ''create_note''
        then validated (Some kvs) [''title'', ''content''] (rest ''create_note'' (Some kvs) ctx)
      else if toolName = ''update_note''
        then validated (Some kvs) [''id''] (rest ''update_note'' (Some kvs) ctx)
      else if toolName = ''delete_note''
        then validated (Some kvs) [''id''] (rest ''delete_note'' (Some kvs) ctx)
      else if toolName = ''generate_contexts'' then rest ''generate_contexts'' (Some kvs) ctx
      else if toolName = ''get_context_stats'' then rest ''get_context_stats'' (Some kvs) ctx
      else if toolName = ''inspect_content''
        then validated (Some kvs) [''id''] (rest ''inspect_content'' (Some kvs) ctx)
      else if toolName = ''preview_update''
        then validated (Some kvs) [''id'', ''old_str'', ''new_str''] (rest ''preview_update'' (Some kvs) ctx)
      else if toolName = ''validate_update''
        then validated (Some kvs) [''id'', ''old_str'', ''new_str''] (rest ''validate_update'' (Some kvs) ctx)
      else if toolName = ''suggest_patterns''
        then validated (Some kvs) [''id'', ''pattern''] (rest ''suggest_patterns'' (Some kvs) ctx)
      else io_throw (Error (''Unknown tool: '' @ toolName)))"

text \<open>\<^verbatim>\<open>NoteHandler.handleTool\<close>: \<^verbatim>\<open>params.projectId\<close> is read before the \<^verbatim>\<open>try\<close>.\<close>

definition note_handleTool :: "rest \<Rightarrow> platform \<Rightarrow> remote \<Rightarrow> config \<Rightarrow> string \<Rightarrow> params \<Rightarrow> tool_context \<Rightarrow> jsval io" where
  "note_handleTool rest p rem cfg toolName ps ctx =
     io_bind (io_lift (read_params ps ''projectId'')) (\<lambda>kvs.
       io_catch (note_switch rest p rem cfg toolName kvs ctx)
                (\<lambda>error. io_return (formatError p error toolName)))"

subsection \<open>SearchHandler\<close>

definition search_tools :: "string list" where
  "search_tools = [''search'', ''graph_search'']"

definition search_getTools :: "tool list" where
  "search_getTools =
     [\<lparr>tool_name = ''search'', required = [''query'']\<rparr>,
      \<lparr>tool_name = ''graph_search'', required = [''query'']\<rparr>]"

definition search_switch :: "rest \<Rightarrow> string \<Rightarrow> (string \<times> jsval) list \<Rightarrow> tool_context \<Rightarrow> jsval io" where
  "search_switch rest toolName kvs ctx =
     (if toolName = ''search''
        then validated (Some kvs) [''query''] (rest ''search'' (Some kvs) ctx)
      else if toolName = ''graph_search''
        then validated (Some kvs) [''query''] (rest ''graph_search'' (Some kvs) ctx)
      else io_throw (Error (''Unknown tool: '' @ toolName)))"

definition search_handleTool :: "rest \<Rightarrow> platform \<Rightarrow> string \<Rightarrow> params \<Rightarrow> tool_context \<Rightarrow> jsval io" where
  "search_handleTool rest p toolName ps ctx =
     io_bind (io_lift (read_params ps ''projectId'')) (\<lambda>kvs.
       io_catch (search_switch rest toolName kvs ctx)
                (\<lambda>error. io_return (formatError p error toolName)))"

subsection \<open>ProjectHandler\<close>

definition project_tools :: "string list" where
  "project_tools = [''list_projects'', ''get_project_info'', ''get_current_context'']"

definition project_getTools :: "tool list" where
  "project_getTools =
     [\<lparr>tool_name = ''list_projects'', required = []\<rparr>,
      \<lparr>tool_name = ''get_project_info'', required = []\<rparr>,
      \<lparr>tool_name = ''get_current_context'', required = []\<rparr>]"

definition project_switch :: "rest \<Rightarrow> string \<Rightarrow> params \<Rightarrow> tool_context \<Rightarrow> jsval io" where
  "project_switch rest toolName ps ctx =
     (if toolName = ''list_projects'' then rest ''list_projects'' ps ctx
      else if toolName = ''get_project_info'' then rest ''get_project_info'' ps ctx
      else if toolName = ''get_current_context'' then rest ''get_current_context'' ps ctx
      else io_throw (Error (''Unknown tool: '' @ toolName)))"

definition project_handleTool :: "rest \<Rightarrow> platform \<Rightarrow> string \<Rightarrow> params \<Rightarrow> tool_context \<Rightarrow> jsval io" where
  "project_handleTool rest p toolName ps ctx =
     io_catch (project_switch rest toolName ps ctx)
              (\<lambda>error. io_return (formatError p error toolName))"

subsection \<open>StatsHandler\<close>

definition stats_tools :: "string list" where
  "stats_tools = [''get_project_stats'', ''get_system_stats'', ''get_usage_stats'', ''get_folder_stats'']"

definition stats_getTools :: "tool list" where
  "stats_getTools =
     [\<lparr>tool_name = ''get_project_stats'', required = []\<rparr>,
      \<lparr>tool_name = ''get_system_stats'', required = []\<rparr>,
      \<lparr>tool_name = ''get_usage_stats'', required = []\<rparr>,
      \<lparr>tool_name = ''get_folder_stats'', required = [''folder'']\<rparr>]"

definition stats_switch :: "rest \<Rightarrow> string \<Rightarrow> params \<Rightarrow> tool_context \<Rightarrow> jsval io" where
  "stats_switch rest toolName ps ctx =
     (if toolName = ''get_project_stats'' then rest ''get_project_stats'' ps ctx
      else if toolName = ''get_system_stats'' then rest ''get_system_stats'' ps ctx
      else if toolName = ''get_usage_stats'' then rest ''get_usage_stats'' ps ctx
      else if toolName = ''get_folder_stats''
        then validated ps [''folder''] (rest ''get_folder_stats'' ps ctx)
      else io_throw (Error (''Unknown tool: '' @ toolName)))"

definition stats_handleTool :: "rest \<Rightarrow> platform \<Rightarrow> string \<Rightarrow> params \<Rightarrow> tool_context \<Rightarrow> jsval io" where
  "stats_handleTool rest p toolName ps ctx =
     io_catch (stats_switch rest toolName ps ctx)
              (\<lambda>error. io_return (formatError p error toolName))"

subsection \<open>CrossReferenceHandler\<close>

definition cross_tools :: "string list" where
  "cross_tools = [''add_wikilink'', ''remove_wikilink'', ''get_note_connections'',
     ''suggest_connections'', ''validate_note_links'', ''get_knowledge_base_health'']"

definition cross_getTools :: "tool list" where
  "cross_getTools =
     [\<lparr>tool_name = ''add_wikilink'', required = [''noteId'', ''targetNoteId'']\<rparr>,
      \<lparr>tool_name = ''remove_wikilink'', required = [''noteId'', ''targetNoteId'']\<rparr>,
      \<lparr>tool_name = ''get_note_connections'', required = [''noteId'']\<rparr>,
      \<lparr>tool_name = ''suggest_connections'', required = [''noteId'']\<rparr>,
      \<lparr>tool_name = ''validate_note_links'', required = [''noteId'']\<rparr>,
      \<lparr>tool_name = ''get_knowledge_base_health'', required = []\<rparr>]"

definition cross_switch :: "rest \<Rightarrow> string \<Rightarrow> (string \<times> jsval) list \<Rightarrow> tool_context \<Rightarrow> jsval io" where
  "cross_switch rest toolName kvs ctx =
     (if toolName = ''add_wikilink''
        then validated (Some kvs) [''noteId'', ''targetNoteId''] (rest ''add_wikilink'' (Some kvs) ctx)
      else if toolName = ''remove_wikilink''
        then validated (Some kvs) [''noteId'', ''targetNoteId''] (rest ''remove_wikilink'' (Some kvs) ctx)
      else if toolName = ''get_note_connections''
        then validated (Some kvs) [''noteId''] (rest ''get_note_connections'' (Some kvs) ctx)
      else if toolName = ''suggest_connections''
        then validated (Some kvs) [''noteId''] (rest ''suggest_connections'' (Some kvs) ctx)
      else if toolName = ''validate_note_links''
        then validated (Some kvs) [''noteId''] (rest ''validate_note_links'' (Some kvs) ctx)
      else if toolName = ''get_knowledge_base_health''
        then rest ''get_knowledge_base_health'' (Some kvs) ctx
      else io_throw (Error (''Unknown tool: '' @ toolName)))"

definition cross_handleTool :: "rest \<Rightarrow> platform \<Rightarrow> string \<Rightarrow> params \<Rightarrow> tool_context \<Rightarrow> jsval io" where
  "cross_handleTool rest p toolName ps ctx =
     io_bind (io_lift (read_params ps ''projectId'')) (\<lambda>kvs.
       io_catch (cross_switch rest toolName kvs ctx)
                (\<lambda>error. io_return (formatError p error toolName)))"

section \<open>The MCP server\<close>

text \<open>
  What the request handlers use of a handler object: \<^verbatim>\<open>canHandleTool\<close> and \<^verbatim>\<open>getTools\<close>
  (\<open>None\<close> when the object has no such method; \<^verbatim>\<open>getTools\<close> may throw) and
  \<^verbatim>\<open>handleTool\<close>.
\<close>

record provider =
  canHandleTool :: "(string \<Rightarrow> bool) option"
  getTools :: "(js_error + tool list) option"
  handleTool :: "string \<Rightarrow> params \<Rightarrow> tool_context \<Rightarrow> jsval io"

definition NoteHandler :: "rest \<Rightarrow> platform \<Rightarrow> remote \<Rightarrow> config \<Rightarrow> provider" where
  "NoteHandler rest p rem cfg =
     \<lparr>canHandleTool = Some (\<lambda>toolName. toolName \<in> set note_tools),
      getTools = Some (Inr note_getTools),
      handleTool = note_handleTool rest p rem cfg\<rparr>"

definition SearchHandler :: "rest \<Rightarrow> platform \<Rightarrow> provider" where
  "SearchHandler rest p =
     \<lparr>canHandleTool = Some (\<lambda>toolName. toolName \<in> set search_tools),
      getTools = Some (Inr search_getTools),
      handleTool = search_handleTool rest p\<rparr>"

definition ProjectHandler :: "rest \<Rightarrow> platform \<Rightarrow> provider" where
  "ProjectHandler rest p =
     \<lparr>canHandleTool = Some (\<lambda>toolName. toolName \<in> set project_tools),
      getTools = Some (Inr project_getTools),
      handleTool = project_handleTool rest p\<rparr>"

definition StatsHandler :: "rest \<Rightarrow> platform \<Rightarrow> provider" where
  "StatsHandler rest p =
     \<lparr>canHandleTool = Some (\<lambda>toolName. toolName \<in> set stats_tools),
      getTools = Some (Inr stats_getTools),
      handleTool = stats_handleTool rest p\<rparr>"

definition CrossReferenceHandler :: "rest \<Rightarrow> platform \<Rightarrow> provider" where
  "CrossReferenceHandler rest p =
     \<lparr>canHandleTool = Some (\<lambda>toolName. toolName \<in> set cross_tools),
      getTools = Some (Inr cross_getTools),
      handleTool = cross_handleTool rest p\<rparr>"

text \<open>
  The server after its constructor: the project it resolved and its handlers, in the
  order \<^verbatim>\<open>Object.values(this.handlers)\<close> visits them. The constructor throws when no
  project is found.
\<close>

record server =
  srv_config :: config
  srv_project :: string
  handlers :: "provider list"

definition new_server :: "rest \<Rightarrow> platform \<Rightarrow> remote \<Rightarrow> config \<Rightarrow> js_error + server" where
  "new_server rest p rem cfg =
     (case server_currentProject cfg of
        Inl e \<Rightarrow> Inl e
      | Inr project \<Rightarrow>
          Inr \<lparr>srv_config = cfg,
               srv_project = project,
               handlers = [NoteHandler rest p rem cfg, SearchHandler rest p, ProjectHandler rest p,
                           StatsHandler rest p, CrossReferenceHandler rest p]\<rparr>)"

text \<open>The server's \<^verbatim>\<open>log\<close> method: a line on the console when logging is enabled.\<close>

definition log :: "platform \<Rightarrow> config \<Rightarrow> string \<Rightarrow> string \<Rightarrow> unit io" where
  "log p cfg level message w =
     (Inr (), if logging_enabled cfg then w @ [Logged (now p) level message] else w)"

text \<open>The \<^verbatim>\<open>ListTools\<close> request handler: the loop that pushes each handler's tools.\<close>

fun collect_tools :: "provider list \<Rightarrow> tool list \<Rightarrow> js_error + tool list" where
  "collect_tools [] tools = Inr tools"
| "collect_tools (h # hs) tools =
     (case getTools h of
        None \<Rightarrow> collect_tools hs tools
      | Some (Inl e) \<Rightarrow> Inl e
      | Some (Inr ts) \<Rightarrow> collect_tools hs (tools @ ts))"

definition ListTools :: "provider list \<Rightarrow> js_error + tool list" where
  "ListTools hs = collect_tools hs []"

text \<open>
  The \<^verbatim>\<open>CallTool\<close> request handler. The \<^verbatim>\<open>text\<close> of a content item is the JSON text of
  a value, kept as that value. \<open>isError\<close> is \<open>None\<close> where the returned object has no
  such key.
\<close>

record content_item =
  item_type :: string
  item_text :: body

record envelope =
  content :: "content_item list"
  isError :: "bool option"

fun find_and_call :: "provider list \<Rightarrow> string \<Rightarrow> params \<Rightarrow> tool_context \<Rightarrow> envelope io" where
  "find_and_call [] name args ctx = io_throw (Error (''Unknown tool: '' @ name))"
| "find_and_call (h # hs) name args ctx =
     (if (case canHandleTool h of None \<Rightarrow> False | Some can \<Rightarrow> can name)
      then io_bind (handleTool h name args ctx) (\<lambda>result.
             io_return \<lparr>content = [\<lparr>item_type = ''text'', item_text = JsonText result\<rparr>],
                        isError = None\<rparr>)
      else find_and_call hs name args ctx)"

definition error_envelope :: "platform \<Rightarrow> js_error \<Rightarrow> string \<Rightarrow> envelope" where
  "error_envelope p error name =
     \<lparr>content = [\<lparr>item_type = ''text'',
                  item_text = JsonText (Obj [(''error'', Str (err_message error)),
                                             (''tool'', Str name),
                                             (''timestamp'', Str (now p))])\<rparr>],
      isError = Some True\<rparr>"

definition CallTool :: "platform \<Rightarrow> server \<Rightarrow> string \<Rightarrow> params \<Rightarrow> envelope io" where
  "CallTool p srv name args =
     io_catch (find_and_call (handlers srv) name args \<lparr>currentProject = srv_project srv\<rparr>)
              (\<lambda>error.
                 io_bind (log p (srv_config srv) ''error''
                            (''Tool execution failed: '' @ name @ '' - '' @ err_message error)) (\<lambda>_.
                 io_return (error_envelope p error name)))"

section \<open>Vocabulary of the properties\<close>

text \<open>
  An attempt of the client fails when \<^verbatim>\<open>fetch\<close> rejects or the response is not
  \<^verbatim>\<open>ok\<close>; \<open>failure\<close> is the error the \<^verbatim>\<open>try\<close> block throws then.
\<close>

definition failed :: "fetch_outcome \<Rightarrow> bool" where
  "failed out = (case out of Rejected e \<Rightarrow> True | Resolved r \<Rightarrow> \<not> ok r)"

definition failure :: "platform \<Rightarrow> fetch_outcome \<Rightarrow> js_error" where
  "failure p out =
     (case out of
        Rejected e \<Rightarrow> e
      | Resolved r \<Rightarrow> Error (''HTTP '' @ toStr p (Num (of_nat (status r))) @ '': '' @ statusText r))"

text \<open>The three event kinds the receiver turns into an event of their own.\<close>

definition recognized :: "jsval \<Rightarrow> bool" where
  "recognized event = (event = Str ''created'' \<or> event = Str ''updated'' \<or> event = Str ''deleted'')"

text \<open>The tools a handler object contributes to \<^verbatim>\<open>ListTools\<close>.\<close>

definition tools_of :: "provider \<Rightarrow> tool list" where
  "tools_of h = (case getTools h of Some (Inr ts) \<Rightarrow> ts | _ \<Rightarrow> [])"

definition getTools_throws :: "provider \<Rightarrow> bool" where
  "getTools_throws h = (case getTools h of Some (Inl e) \<Rightarrow> True | _ \<Rightarrow> False)"

definition claims_tool :: "provider \<Rightarrow> string \<Rightarrow> bool" where
  "claims_tool h name = (case canHandleTool h of None \<Rightarrow> False | Some can \<Rightarrow> can name)"

section \<open>Scenarios\<close>

text \<open>The configuration \<^verbatim>\<open>config.js\<close> gives with the credential and the project of the
  environment and no other variable set.\<close>

definition config_js :: "string option \<Rightarrow> string option \<Rightarrow> config" where
  "config_js api_key project =
     \<lparr>apiUrl = ''http://localhost:3000'',
      apiKey = api_key,
      projectId = project,
      webhook = \<lparr>path = ''/webhook''\<rparr>,
      http = \<lparr>timeout = 5000, retries = 3, retryDelay = 1000\<rparr>,
      logging_enabled = True\<rparr>"


text \<open>A platform for the scenarios: it parses the webhook bodies used below and
  renders the strings and the numbers used below.\<close>

definition scenario_platform :: platform where
  "scenario_platform =
     \<lparr>toStr = (\<lambda>v. case v of
                       Str x \<Rightarrow> x
                     | Num n \<Rightarrow> if n = 5 then ''5'' else if n = 503 then ''503'' else ''?''
                     | _ \<Rightarrow> ''?''),
      encodeURIComponent = (\<lambda>s. s),
      JSON_parse = map_of
        [(''{\"event\":\"created\",\"data\":{\"id\":1}}'',
            Obj [(''event'', Str ''created''), (''data'', Obj [(''id'', Num 1)])]),
         (''{\"event\":\"archived\",\"data\":{\"id\":1}}'',
            Obj [(''event'', Str ''archived''), (''data'', Obj [(''id'', Num 1)])]),
         (''null'', Null)],
      now = ''2025-01-01T00:00:00.000Z''\<rparr>"

definition response_200 :: response where
  "response_200 = \<lparr>status = 200, statusText = ''OK'', content_type = Some ''application/json'',
     body_text = ''{}'', body_json = Some (Obj [])\<rparr>"

definition response_503 :: response where
  "response_503 = \<lparr>status = 503, statusText = ''Service Unavailable'', content_type = None,
     body_text = '''', body_json = None\<rparr>"

text \<open>A remote endpoint that fails twice (a refused connection, then a 503) and then
  answers 200, and one that answers 503 to everything.\<close>

definition remote_recovering :: remote where
  "remote_recovering n req =
     (if n = 0 then Rejected (TypeError ''fetch failed'')
      else if n = 1 then Resolved response_503
      else Resolved response_200)"

definition remote_down :: remote where
  "remote_down n req = Resolved response_503"

definition quiet :: listeners where
  "quiet name payload = None"

text \<open>An application whose \<^verbatim>\<open>noteCreated\<close> listener throws.\<close>

definition throwing_on_created :: listeners where
  "throwing_on_created name payload =
     (if name = ''noteCreated'' then Some (Error ''listener failed'') else None)"

definition post :: "string \<Rightarrow> string \<Rightarrow> http_request" where
  "post to_url body_str = \<lparr>req_method = ''POST'', req_url = to_url, req_chunks = [body_str]\<rparr>"


text \<open>A handler object whose \<^verbatim>\<open>getTools\<close> throws, and method bodies for the scenarios.\<close>

definition broken_provider :: provider where
  "broken_provider =
     \<lparr>canHandleTool = None,
      getTools = Some (Inl (Error ''enumeration failed'')),
      handleTool = (\<lambda>name args ctx. io_return Null)\<rparr>"

definition scenario_rest :: rest where
  "scenario_rest name args ctx = io_return Null"

text \<open>A remote API that answers every request with the note \<^verbatim>\<open>{data: {id: 5, title: "x"}}\<close>.\<close>

definition remote_note :: remote where
  "remote_note n req =
     Resolved \<lparr>status = 200, statusText = ''OK'',
               content_type = Some ''application/json; charset=utf-8'',
               body_text = ''{\"data\":{\"id\":5,\"title\":\"x\"}}'',
               body_json = Some (Obj [(''data'', Obj [(''id'', Num 5), (''title'', Str ''x'')])])\<rparr>"

text \<open>The session of the end-to-end scenario: the credential
  \<^verbatim>\<open>employee-myproject-secret123\<close>, no explicit project, and the server the constructor
  builds from them.\<close>

definition scenario_config :: config where
  "scenario_config = config_js (Some ''employee-myproject-secret123'') None"

definition scenario_server :: "rest \<Rightarrow> server" where
  "scenario_server rest =
     \<lparr>srv_config = scenario_config,
      srv_project = ''myproject'',
      handlers = [NoteHandler rest scenario_platform remote_note scenario_config,
                  SearchHandler rest scenario_platform, ProjectHandler rest scenario_platform,
                  StatsHandler rest scenario_platform, CrossReferenceHandler rest scenario_platform]\<rparr>"

section \<open>Properties of identity resolution\<close>

lemma split_on_nonempty: "split_on c s \<noteq> []"
  by (induction s) (auto split: list.splits)

lemma length_split_on: "length (split_on c s) = Suc (count_list s c)"
  by (induction s) (auto split: list.splits)

lemma split_on_first: "c \<notin> set a \<Longrightarrow> split_on c (a @ c # r) = a # split_on c r"
  by (induction a) (auto split: list.splits)

lemma split_on_none: "c \<notin> set a \<Longrightarrow> split_on c a = [a]"
  by (induction a) (auto split: list.splits)

lemma indexOf_first: "c \<notin> set a \<Longrightarrow> indexOf (a @ c # r) c = int (length a)"
  by (induction a) (auto simp: Let_def)

lemma lastIndexOf_notin: "c \<notin> set s \<Longrightarrow> lastIndexOf s c = -1"
  by (induction s) (auto simp: Let_def)

lemma lastIndexOf_last: "c \<notin> set z \<Longrightarrow> lastIndexOf (b @ c # z) c = int (length b)"
  by (induction b) (auto simp: Let_def lastIndexOf_notin)

lemma substring_mid:
  "substring (a @ c # m @ d # z) (int (length a) + 1) (int (length a) + 1 + int (length m)) = m"
proof -
  have "nat (int (length a) + 1) = Suc (length a)" by simp
  then show ?thesis by (simp add: substring_def Let_def min_def max_def)
qed

text \<open>
  The client returns what stands strictly between the first and the last dash, for every
  credential with at least two dashes: \<open>a\<close> is the part before the first dash, \<open>z\<close> the
  part after the last one.
\<close>

lemma getProjectFromApiKey_between_dashes:
  assumes "\<not> truthy_str (projectId cfg)"
    and "apiKey cfg = Some (a @ CHR ''-'' # m @ CHR ''-'' # z)"
    and "CHR ''-'' \<notin> set a" and "CHR ''-'' \<notin> set z"
  shows "getProjectFromApiKey cfg = Inr m"
proof -
  let ?k = "a @ CHR ''-'' # m @ CHR ''-'' # z"
  have f: "indexOf ?k CHR ''-'' = int (length a)"
    using assms(3) by (rule indexOf_first)
  have "lastIndexOf ((a @ CHR ''-'' # m) @ CHR ''-'' # z) CHR ''-'' = int (length (a @ CHR ''-'' # m))"
    using assms(4) by (rule lastIndexOf_last)
  then have l: "lastIndexOf ?k CHR ''-'' = int (length a) + 1 + int (length m)"
    by simp
  have n: "3 \<le> length (split_on CHR ''-'' ?k)"
    by (simp add: length_split_on)
  show ?thesis
    using assms(1,2) n f l substring_mid[of a "CHR ''-''" m "CHR ''-''" z]
    by (simp add: getProjectFromApiKey_def Let_def)
qed

text \<open>The server returns the second segment, which is the whole middle only when the
  middle has no dash of its own.\<close>

lemma extractProjectFromApiKey_second_segment:
  assumes "apiKey cfg = Some (a @ CHR ''-'' # m @ CHR ''-'' # z)"
    and "CHR ''-'' \<notin> set a" and "CHR ''-'' \<notin> set m"
  shows "extractProjectFromApiKey cfg = Some m"
proof -
  have "split_on CHR ''-'' (a @ CHR ''-'' # m @ CHR ''-'' # z) = a # m # split_on CHR ''-'' z"
    using assms(2,3) by (simp add: split_on_first)
  moreover have "split_on CHR ''-'' z \<noteq> []"
    by (rule split_on_nonempty)
  ultimately show ?thesis
    using assms(1) by (cases "split_on CHR ''-'' z") (simp_all add: extractProjectFromApiKey_def)
qed

text \<open>
  C2. Project extraction returns the substring strictly between the first and the last
  dash of the credential, in the server as in the client. The client does; the server
  returns the second segment only: for the credential \<^verbatim>\<open>hr-test-project-3saML26ipBq91vNz\<close>
  of the repository's client test it gives \<^verbatim>\<open>test\<close>, where the client gives
  \<^verbatim>\<open>test-project\<close>.
\<close>

theorem extractProjectFromApiKey_drops_inner_dash:
  "extractProjectFromApiKey (config_js (Some ''hr-test-project-3saML26ipBq91vNz'') None) = Some ''test''
   \<and> server_currentProject (config_js (Some ''hr-test-project-3saML26ipBq91vNz'') None) = Inr ''test''
   \<and> getProjectFromApiKey (config_js (Some ''hr-test-project-3saML26ipBq91vNz'') None) = Inr ''test-project''"
  by (simp add: extractProjectFromApiKey_def server_currentProject_def getProjectFromApiKey_def
      config_js_def truthy_str_def substring_def Let_def)

text \<open>
  C5, as amended. With no explicit project: the server's construction throws when the
  credential is missing or has no dash; the client throws (when asked for the project)
  only for a missing or empty credential, and answers \<^verbatim>\<open>default\<close> for a credential
  with no dash.
\<close>

theorem identity_resolution_without_project:
  assumes "\<not> truthy_str (projectId cfg)"
  shows "(apiKey cfg = None \<or> (\<exists>k. apiKey cfg = Some k \<and> CHR ''-'' \<notin> set k) \<longrightarrow>
            server_currentProject cfg =
              Inl (Error ''No valid project found. Set PROJECT_ID or use API key format: role-project-secret''))
       \<and> (\<not> truthy_str (apiKey cfg) \<longrightarrow>
            getProjectFromApiKey cfg = Inl (Error ''No API key configured''))
       \<and> (\<forall>k. apiKey cfg = Some k \<and> k \<noteq> [] \<and> CHR ''-'' \<notin> set k \<longrightarrow>
            getProjectFromApiKey cfg = Inr ''default'')"
  using assms
  by (auto simp: server_currentProject_def extractProjectFromApiKey_def getProjectFromApiKey_def
      truthy_str_def split_on_none split: option.splits)

theorem identity_resolution_without_project_witness:
  "server_currentProject (config_js (Some ''nodash'') None) =
     Inl (Error ''No valid project found. Set PROJECT_ID or use API key format: role-project-secret'')
   \<and> getProjectFromApiKey (config_js (Some ''nodash'') None) = Inr ''default''
   \<and> getProjectFromApiKey (config_js None None) = Inl (Error ''No API key configured'')"
  using identity_resolution_without_project [of "config_js (Some ''nodash'') None"]
    identity_resolution_without_project [of "config_js None None"]
  by (simp add: config_js_def truthy_str_def)

theorem client_default_project_counterexample:
  "\<not> isl (getProjectFromApiKey (config_js (Some ''nodash'') None))
   \<and> getProjectFromApiKey (config_js (Some ''nodash'') None) = Inr ''default''"
  by (simp add: getProjectFromApiKey_def config_js_def truthy_str_def)

section \<open>The client's retries\<close>

lemma requests_append [simp]: "requests (w @ v) = requests w @ requests v"
  by (induction w rule: requests.induct) auto

lemma client_attempt_failed:
  "failed (rem (length (requests w)) req) \<Longrightarrow>
   client_attempt p rem req w = (Inl (failure p (rem (length (requests w)) req)), w @ [Fetched req])"
  by (auto simp: client_attempt_def fetch_def failed_def failure_def split: fetch_outcome.splits)

lemma client_attempt_ok:
  "rem (length (requests w)) req = Resolved r \<Longrightarrow> ok r \<Longrightarrow>
   client_attempt p rem req w = (Inr r, w @ [Fetched req])"
  by (simp add: client_attempt_def fetch_def)

lemma retry_step_failed:
  "attempt \<le> retries (http cfg) \<Longrightarrow> failed (rem (length (requests w)) req) \<Longrightarrow>
   client_retry_loop p rem cfg req attempt w =
     (if attempt + 1 > retries (http cfg)
      then (Inl (failure p (rem (length (requests w)) req)), w @ [Fetched req])
      else client_retry_loop p rem cfg req (attempt + 1)
             (w @ [Fetched req, Slept (retryDelay (http cfg) * (attempt + 1))]))"
  by (subst client_retry_loop.simps) (simp add: client_attempt_failed sleep_def)

lemma retry_step_ok:
  "attempt \<le> retries (http cfg) \<Longrightarrow> rem (length (requests w)) req = Resolved r \<Longrightarrow> ok r \<Longrightarrow>
   client_retry_loop p rem cfg req attempt w = (Inr (Some r), w @ [Fetched req])"
  by (subst client_retry_loop.simps) (simp add: client_attempt_ok)

text \<open>
  C6. With \<^verbatim>\<open>retries = 3\<close>, from a trace in which \<open>n\<close> requests were issued:
  when the endpoint fails the first two attempts and answers the third with an \<^verbatim>\<open>ok\<close>
  response, \<^verbatim>\<open>apiRequest\<close> returns that response after exactly three requests, having
  waited \<^verbatim>\<open>retryDelay * 1\<close> and \<^verbatim>\<open>retryDelay * 2\<close> before the second and the third;
  when the endpoint fails four attempts, \<^verbatim>\<open>apiRequest\<close> issues exactly four requests,
  waits \<^verbatim>\<open>retryDelay * k\<close> before the \<open>k\<close>-th retry, and throws the error of the
  fourth attempt.
\<close>

theorem client_apiRequest_retry_limit_3:
  assumes "retries (http cfg) = 3"
    and "req = client_fetchOptions cfg endpoint options"
    and "n = length (requests w)"
    and "d = retryDelay (http cfg)"
  shows "(failed (rem n req) \<and> failed (rem (n + 1) req) \<and> rem (n + 2) req = Resolved r \<and> ok r \<longrightarrow>
            client_apiRequest p rem cfg endpoint options w =
              (Inr (Some r), w @ [Fetched req, Slept (d * 1), Fetched req, Slept (d * 2), Fetched req]))
       \<and> (failed (rem n req) \<and> failed (rem (n + 1) req) \<and> failed (rem (n + 2) req) \<and> failed (rem (n + 3) req) \<longrightarrow>
            client_apiRequest p rem cfg endpoint options w =
              (Inl (failure p (rem (n + 3) req)),
               w @ [Fetched req, Slept (d * 1), Fetched req, Slept (d * 2), Fetched req, Slept (d * 3),
                    Fetched req]))"
proof (intro conjI impI)
  assume a: "failed (rem n req) \<and> failed (rem (n + 1) req) \<and> rem (n + 2) req = Resolved r \<and> ok r"
  show "client_apiRequest p rem cfg endpoint options w =
          (Inr (Some r), w @ [Fetched req, Slept (d * 1), Fetched req, Slept (d * 2), Fetched req])"
    unfolding client_apiRequest_def assms(2)[symmetric]
    using a assms(1,3,4) by (simp add: retry_step_failed retry_step_ok)
next
  assume a: "failed (rem n req) \<and> failed (rem (n + 1) req) \<and> failed (rem (n + 2) req) \<and> failed (rem (n + 3) req)"
  show "client_apiRequest p rem cfg endpoint options w =
          (Inl (failure p (rem (n + 3) req)),
           w @ [Fetched req, Slept (d * 1), Fetched req, Slept (d * 2), Fetched req, Slept (d * 3),
                Fetched req])"
    unfolding client_apiRequest_def assms(2)[symmetric]
    using a assms(1,3,4) by (simp add: retry_step_failed eval_nat_numeral)
qed

theorem client_apiRequest_retry_limit_3_witness:
  "client_apiRequest scenario_platform remote_recovering (config_js (Some ''employee-myproject-secret123'') None)
       ''/health'' no_options [] =
     (Inr (Some response_200),
      [Fetched (client_fetchOptions (config_js (Some ''employee-myproject-secret123'') None) ''/health'' no_options),
       Slept 1000,
       Fetched (client_fetchOptions (config_js (Some ''employee-myproject-secret123'') None) ''/health'' no_options),
       Slept 2000,
       Fetched (client_fetchOptions (config_js (Some ''employee-myproject-secret123'') None) ''/health'' no_options)])
   \<and> client_apiRequest scenario_platform remote_down (config_js (Some ''employee-myproject-secret123'') None)
       ''/health'' no_options [] =
     (Inl (Error ''HTTP 503: Service Unavailable''),
      [Fetched (client_fetchOptions (config_js (Some ''employee-myproject-secret123'') None) ''/health'' no_options),
       Slept 1000,
       Fetched (client_fetchOptions (config_js (Some ''employee-myproject-secret123'') None) ''/health'' no_options),
       Slept 2000,
       Fetched (client_fetchOptions (config_js (Some ''employee-myproject-secret123'') None) ''/health'' no_options),
       Slept 3000,
       Fetched (client_fetchOptions (config_js (Some ''employee-myproject-secret123'') None) ''/health'' no_options)])"
proof -
  let ?C = "config_js (Some ''employee-myproject-secret123'') None"
  let ?R = "client_fetchOptions ?C ''/health'' no_options"
  have r: "retries (http ?C) = 3" and d: "retryDelay (http ?C) = 1000"
    by (simp_all add: config_js_def)
  have rec: "failed (remote_recovering 0 ?R)" "failed (remote_recovering (Suc 0) ?R)"
    "ok response_200"
    by (simp_all add: remote_recovering_def failed_def ok_def response_200_def response_503_def)
  have rec2: "remote_recovering (Suc (Suc k)) ?R = Resolved response_200" for k
    by (simp add: remote_recovering_def)
  have down: "failed (remote_down k ?R)" for k
    by (simp add: remote_down_def failed_def ok_def response_503_def)
  have err: "failure scenario_platform (remote_down 3 ?R) = Error ''HTTP 503: Service Unavailable''"
    by (simp add: remote_down_def failure_def response_503_def scenario_platform_def)
  have one: "client_apiRequest scenario_platform remote_recovering ?C ''/health'' no_options [] =
      (Inr (Some response_200), [Fetched ?R, Slept 1000, Fetched ?R, Slept 2000, Fetched ?R])"
    using client_apiRequest_retry_limit_3 [OF r refl refl refl,
        where rem = remote_recovering and r = response_200 and p = scenario_platform and w = "[]"
          and endpoint = "''/health''" and options = no_options]
      rec
    by (simp add: d rec2)
  have two: "client_apiRequest scenario_platform remote_down ?C ''/health'' no_options [] =
      (Inl (Error ''HTTP 503: Service Unavailable''),
       [Fetched ?R, Slept 1000, Fetched ?R, Slept 2000, Fetched ?R, Slept 3000, Fetched ?R])"
    using client_apiRequest_retry_limit_3 [OF r refl refl refl,
        where rem = remote_down and r = response_200 and p = scenario_platform and w = "[]"
          and endpoint = "''/health''" and options = no_options]
      down err
    by (simp add: d)
  from one two show ?thesis by simp
qed

section \<open>The webhook receiver\<close>

lemma webhook_dispatch_unrecognized:
  assumes "get_prop data ''event'' = Inr event" and "\<not> recognized event"
    and "throwing ''webhookReceived'' data = None"
  shows "webhook_dispatch throwing data evs = (Inr (), evs @ [(''webhookReceived'', data)])"
  using assms by (simp add: webhook_dispatch_def emit_by_kind_def emit_def recognized_def)

text \<open>
  C3, as amended. A POST to the webhook path whose body parses to a JSON value with an
  \<^verbatim>\<open>event\<close> that is none of \<^verbatim>\<open>created\<close>, \<^verbatim>\<open>updated\<close>, \<^verbatim>\<open>deleted\<close> (or has none) is
  answered \<^verbatim>\<open>200 {success:true}\<close>; the only event emitted is \<^verbatim>\<open>webhookReceived\<close> with the
  parsed body, provided its listeners return. The body \<^verbatim>\<open>null\<close> is answered \<^verbatim>\<open>400\<close>
  with no event.
\<close>

theorem webhook_unrecognized_event:
  assumes "req_method req = ''POST''" and "req_url req = path (webhook cfg)"
    and "JSON_parse p (concat (req_chunks req)) = Some data"
  shows "(\<forall>event. get_prop data ''event'' = Inr event \<and> \<not> recognized event
              \<and> throwing ''webhookReceived'' data = None \<longrightarrow>
            webhook_listener p throwing cfg req evs =
              (\<lparr>res_status = 200, res_headers = [(''Content-Type'', ''application/json'')],
                res_body = Some (JsonText (Obj [(''success'', Bool True)]))\<rparr>,
               evs @ [(''webhookReceived'', data)]))
       \<and> (data = Null \<longrightarrow>
            webhook_listener p throwing cfg req evs =
              (\<lparr>res_status = 400, res_headers = [], res_body = None\<rparr>, evs))"
  using assms
  by (auto simp: webhook_listener_def handleWebhook_def webhook_dispatch_unrecognized)
     (simp add: webhook_dispatch_def get_prop_def)

theorem webhook_unrecognized_event_witness:
  "webhook_listener scenario_platform quiet (config_js None None)
      (post ''/webhook'' ''{\"event\":\"archived\",\"data\":{\"id\":1}}'') [] =
     (\<lparr>res_status = 200, res_headers = [(''Content-Type'', ''application/json'')],
       res_body = Some (JsonText (Obj [(''success'', Bool True)]))\<rparr>,
      [(''webhookReceived'', Obj [(''event'', Str ''archived''), (''data'', Obj [(''id'', Num 1)])])])
   \<and> webhook_listener scenario_platform quiet (config_js None None) (post ''/webhook'' ''null'') [] =
     (\<lparr>res_status = 400, res_headers = [], res_body = None\<rparr>, [])"
proof -
  let ?d = "Obj [(''event'', Str ''archived''), (''data'', Obj [(''id'', Num 1)])]"
  have m: "req_method (post ''/webhook'' b) = ''POST''"
    and u: "req_url (post ''/webhook'' b) = path (webhook (config_js None None))" for b
    by (simp_all add: post_def config_js_def)
  have p1: "JSON_parse scenario_platform (concat (req_chunks (post ''/webhook''
              ''{\"event\":\"archived\",\"data\":{\"id\":1}}''))) = Some ?d"
    by (simp add: post_def scenario_platform_def)
  have p2: "JSON_parse scenario_platform (concat (req_chunks (post ''/webhook'' ''null''))) = Some Null"
    by (simp add: post_def scenario_platform_def)
  have e: "get_prop ?d ''event'' = Inr (Str ''archived'')" "\<not> recognized (Str ''archived'')"
    "quiet ''webhookReceived'' ?d = None"
    by (simp_all add: get_prop_def obj_get_def recognized_def quiet_def)
  from webhook_unrecognized_event [OF m u p1, of quiet "[]"] e
  have one: "webhook_listener scenario_platform quiet (config_js None None)
      (post ''/webhook'' ''{\"event\":\"archived\",\"data\":{\"id\":1}}'') [] =
     (\<lparr>res_status = 200, res_headers = [(''Content-Type'', ''application/json'')],
       res_body = Some (JsonText (Obj [(''success'', Bool True)]))\<rparr>,
      [(''webhookReceived'', ?d)])"
    by simp
  from webhook_unrecognized_event [OF m u p2, of quiet "[]"]
  have two: "webhook_listener scenario_platform quiet (config_js None None) (post ''/webhook'' ''null'') [] =
     (\<lparr>res_status = 400, res_headers = [], res_body = None\<rparr>, [])"
    by simp
  from one two show ?thesis by simp
qed

theorem webhook_unrecognized_event_counterexample:
  "res_status (fst (webhook_listener scenario_platform quiet (config_js None None)
      (post ''/webhook'' ''{\"event\":\"archived\",\"data\":{\"id\":1}}'') [])) = 200
   \<and> \<not> (400 \<le> res_status (fst (webhook_listener scenario_platform quiet (config_js None None)
      (post ''/webhook'' ''{\"event\":\"archived\",\"data\":{\"id\":1}}'') []))
        \<and> res_status (fst (webhook_listener scenario_platform quiet (config_js None None)
      (post ''/webhook'' ''{\"event\":\"archived\",\"data\":{\"id\":1}}'') [])) \<le> 499)"
  by (simp add: webhook_listener_def handleWebhook_def webhook_dispatch_def emit_by_kind_def emit_def
      get_prop_def obj_get_def post_def config_js_def scenario_platform_def quiet_def)

text \<open>
  C8, as amended. A POST to the configured path whose body parses to
  \<^verbatim>\<open>{event: "created", data: {id: 1}}\<close> emits \<^verbatim>\<open>noteCreated\<close> with \<^verbatim>\<open>{id: 1}\<close> and then
  \<^verbatim>\<open>webhookReceived\<close> with the whole envelope, and is answered \<^verbatim>\<open>200 {success:true}\<close>,
  provided the listeners of the two events return: \<^verbatim>\<open>emit\<close> runs them inside the
  \<^verbatim>\<open>try\<close> block. A POST whose body is not JSON emits nothing and is answered \<^verbatim>\<open>400\<close>;
  any other method or path is answered \<^verbatim>\<open>404\<close> and emits nothing.
\<close>

theorem webhook_receiver_created_invalid_other:
  assumes "envelope = Obj [(''event'', Str ''created''), (''data'', Obj [(''id'', Num 1)])]"
  shows "(req_method req = ''POST'' \<and> req_url req = path (webhook cfg)
            \<and> JSON_parse p (concat (req_chunks req)) = Some envelope
            \<and> throwing ''noteCreated'' (Obj [(''id'', Num 1)]) = None
            \<and> throwing ''webhookReceived'' envelope = None \<longrightarrow>
          webhook_listener p throwing cfg req evs =
            (\<lparr>res_status = 200, res_headers = [(''Content-Type'', ''application/json'')],
              res_body = Some (JsonText (Obj [(''success'', Bool True)]))\<rparr>,
             evs @ [(''noteCreated'', Obj [(''id'', Num 1)]), (''webhookReceived'', envelope)]))
       \<and> (req_method req = ''POST'' \<and> req_url req = path (webhook cfg)
            \<and> JSON_parse p (concat (req_chunks req)) = None \<longrightarrow>
          webhook_listener p throwing cfg req evs =
            (\<lparr>res_status = 400, res_headers = [], res_body = None\<rparr>, evs))
       \<and> (req_method req \<noteq> ''POST'' \<or> req_url req \<noteq> path (webhook cfg) \<longrightarrow>
          webhook_listener p throwing cfg req evs =
            (\<lparr>res_status = 404, res_headers = [], res_body = None\<rparr>, evs))"
  using assms
  by (auto simp: webhook_listener_def handleWebhook_def webhook_dispatch_def emit_by_kind_def
      emit_data_def emit_def get_prop_def obj_get_def)

theorem webhook_receiver_created_invalid_other_witness:
  "webhook_listener scenario_platform quiet (config_js None None)
      (post ''/webhook'' ''{\"event\":\"created\",\"data\":{\"id\":1}}'') [] =
     (\<lparr>res_status = 200, res_headers = [(''Content-Type'', ''application/json'')],
       res_body = Some (JsonText (Obj [(''success'', Bool True)]))\<rparr>,
      [(''noteCreated'', Obj [(''id'', Num 1)]),
       (''webhookReceived'', Obj [(''event'', Str ''created''), (''data'', Obj [(''id'', Num 1)])])])
   \<and> webhook_listener scenario_platform quiet (config_js None None) (post ''/webhook'' ''{not json'') [] =
     (\<lparr>res_status = 400, res_headers = [], res_body = None\<rparr>, [])
   \<and> webhook_listener scenario_platform quiet (config_js None None)
      \<lparr>req_method = ''GET'', req_url = ''/webhook'', req_chunks = []\<rparr> [] =
     (\<lparr>res_status = 404, res_headers = [], res_body = None\<rparr>, [])
   \<and> webhook_listener scenario_platform quiet (config_js None None)
      (post ''/other'' ''{\"event\":\"created\",\"data\":{\"id\":1}}'') [] =
     (\<lparr>res_status = 404, res_headers = [], res_body = None\<rparr>, [])"
proof -
  let ?d = "Obj [(''event'', Str ''created''), (''data'', Obj [(''id'', Num 1)])]"
  note t = webhook_receiver_created_invalid_other [OF refl, where p = scenario_platform
      and throwing = quiet and cfg = "config_js None None" and evs = "[]"]
  have one: "webhook_listener scenario_platform quiet (config_js None None)
      (post ''/webhook'' ''{\"event\":\"created\",\"data\":{\"id\":1}}'') [] =
     (\<lparr>res_status = 200, res_headers = [(''Content-Type'', ''application/json'')],
       res_body = Some (JsonText (Obj [(''success'', Bool True)]))\<rparr>,
      [(''noteCreated'', Obj [(''id'', Num 1)]), (''webhookReceived'', ?d)])"
    using t [where req = "post ''/webhook'' ''{\"event\":\"created\",\"data\":{\"id\":1}}''"]
    by (simp add: post_def config_js_def scenario_platform_def quiet_def)
  have two: "webhook_listener scenario_platform quiet (config_js None None) (post ''/webhook'' ''{not json'') [] =
     (\<lparr>res_status = 400, res_headers = [], res_body = None\<rparr>, [])"
    using t [where req = "post ''/webhook'' ''{not json''"]
    by (simp add: post_def config_js_def scenario_platform_def quiet_def)
  have three: "webhook_listener scenario_platform quiet (config_js None None)
      \<lparr>req_method = ''GET'', req_url = ''/webhook'', req_chunks = []\<rparr> [] =
     (\<lparr>res_status = 404, res_headers = [], res_body = None\<rparr>, [])"
    using t [where req = "\<lparr>req_method = ''GET'', req_url = ''/webhook'', req_chunks = []\<rparr>"]
    by simp
  have four: "webhook_listener scenario_platform quiet (config_js None None)
      (post ''/other'' ''{\"event\":\"created\",\"data\":{\"id\":1}}'') [] =
     (\<lparr>res_status = 404, res_headers = [], res_body = None\<rparr>, [])"
    using t [where req = "post ''/other'' ''{\"event\":\"created\",\"data\":{\"id\":1}}''"]
    by (simp add: post_def config_js_def)
  from one two three four show ?thesis by simp
qed

text \<open>
  The claim without the proviso fails: with a \<^verbatim>\<open>noteCreated\<close> listener that throws, the
  same POST is answered \<^verbatim>\<open>400\<close> and \<^verbatim>\<open>webhookReceived\<close> is never emitted.
\<close>

theorem webhook_throwing_listener_counterexample:
  "webhook_listener scenario_platform throwing_on_created (config_js None None)
      (post ''/webhook'' ''{\"event\":\"created\",\"data\":{\"id\":1}}'') [] =
     (\<lparr>res_status = 400, res_headers = [], res_body = None\<rparr>,
      [(''noteCreated'', Obj [(''id'', Num 1)])])
   \<and> res_status (fst (webhook_listener scenario_platform throwing_on_created (config_js None None)
      (post ''/webhook'' ''{\"event\":\"created\",\"data\":{\"id\":1}}'') [])) \<noteq> 200
   \<and> (''webhookReceived'', Obj [(''event'', Str ''created''), (''data'', Obj [(''id'', Num 1)])])
        \<notin> set (snd (webhook_listener scenario_platform throwing_on_created (config_js None None)
      (post ''/webhook'' ''{\"event\":\"created\",\"data\":{\"id\":1}}'') []))"
  by (simp add: webhook_listener_def handleWebhook_def webhook_dispatch_def emit_by_kind_def
      emit_data_def emit_def get_prop_def obj_get_def post_def config_js_def scenario_platform_def
      throwing_on_created_def)

section \<open>BaseHandler.apiRequest\<close>

lemma base_try_trace: "snd (base_try p rem req w) = w @ [Fetched req]"
  by (simp add: base_try_def fetch_def split: fetch_outcome.splits option.splits)

lemma base_try_failed:
  "failed (rem (length (requests w)) req) \<Longrightarrow> isl (fst (base_try p rem req w))"
  by (auto simp: base_try_def fetch_def failed_def split: fetch_outcome.splits)

lemma base_catch_isl: "isl (fst (base_catch cfg e w)) \<and> snd (base_catch cfg e w) = w"
  by (simp add: base_catch_def io_throw_def)

lemma base_apiRequest_trace:
  "snd (base_apiRequest p rem cfg endpoint options w) = w @ [Fetched (base_fetchOptions cfg endpoint options)]"
proof -
  let ?req = "base_fetchOptions cfg endpoint options"
  obtain r w1 where t: "base_try p rem ?req w = (r, w1)"
    by (cases "base_try p rem ?req w")
  then have w1: "w1 = w @ [Fetched ?req]"
    using base_try_trace [of p rem ?req w] by simp
  show ?thesis
    using t w1 base_catch_isl
    by (cases r) (simp_all add: base_apiRequest_def io_catch_def)
qed

text \<open>
  C10. Every call of \<^verbatim>\<open>BaseHandler.apiRequest\<close> adds exactly one \<^verbatim>\<open>fetch\<close> to the trace
  and no delay, whatever the configuration (its retry settings included); the request
  carries no timeout; and when that one attempt fails (a network error or a response
  that is not \<^verbatim>\<open>ok\<close>) the call throws.
\<close>

theorem base_apiRequest_single_attempt:
  "snd (base_apiRequest p rem cfg endpoint options w) =
       w @ [Fetched (base_fetchOptions cfg endpoint options)]
   \<and> f_timeout (base_fetchOptions cfg endpoint options) = None
   \<and> (failed (rem (length (requests w)) (base_fetchOptions cfg endpoint options)) \<longrightarrow>
        isl (fst (base_apiRequest p rem cfg endpoint options w)))"
proof (intro conjI impI)
  show "snd (base_apiRequest p rem cfg endpoint options w) =
          w @ [Fetched (base_fetchOptions cfg endpoint options)]"
    by (rule base_apiRequest_trace)
  show "f_timeout (base_fetchOptions cfg endpoint options) = None"
    by (simp add: base_fetchOptions_def)
next
  let ?req = "base_fetchOptions cfg endpoint options"
  assume "failed (rem (length (requests w)) ?req)"
  then have "isl (fst (base_try p rem ?req w))"
    by (rule base_try_failed)
  then obtain e w1 where "base_try p rem ?req w = (Inl e, w1)"
    by (cases "base_try p rem ?req w") (auto simp: isl_def)
  then show "isl (fst (base_apiRequest p rem cfg endpoint options w))"
    using base_catch_isl by (simp add: base_apiRequest_def io_catch_def)
qed

theorem base_apiRequest_single_attempt_witness:
  "base_apiRequest scenario_platform remote_down (config_js (Some ''employee-myproject-secret123'') None)
       ''/api/projects/myproject/notes/5'' no_options [] =
     (Inl (Error ''API request failed (503): ''),
      [Fetched \<lparr>url = ''http://localhost:3000/api/projects/myproject/notes/5'', f_method = ''GET'',
                f_headers = [(''Content-Type'', Some ''application/json''),
                             (''X-API-Key'', Some ''employee-myproject-secret123'')],
                f_body = None, f_timeout = None\<rparr>])"
proof -
  let ?C = "config_js (Some ''employee-myproject-secret123'') None"
  let ?R = "base_fetchOptions ?C ''/api/projects/myproject/notes/5'' no_options"
  have f: "failed (remote_down (length (requests [])) ?R)"
    by (simp add: remote_down_def failed_def ok_def response_503_def)
  have r: "?R = \<lparr>url = ''http://localhost:3000/api/projects/myproject/notes/5'', f_method = ''GET'',
                f_headers = [(''Content-Type'', Some ''application/json''),
                             (''X-API-Key'', Some ''employee-myproject-secret123'')],
                f_body = None, f_timeout = None\<rparr>"
    by (simp add: base_fetchOptions_def config_js_def no_options_def truthy_str_def base_body_def)
  have v: "fst (base_apiRequest scenario_platform remote_down ?C ''/api/projects/myproject/notes/5''
             no_options []) = Inl (Error ''API request failed (503): '')"
    by (simp add: base_apiRequest_def io_catch_def base_try_def fetch_def remote_down_def ok_def
        response_503_def base_catch_def io_throw_def scenario_platform_def Error_def)
  from base_apiRequest_single_attempt [of scenario_platform remote_down ?C
      "''/api/projects/myproject/notes/5''" no_options "[]"] f
  have "snd (base_apiRequest scenario_platform remote_down ?C ''/api/projects/myproject/notes/5''
          no_options []) = [Fetched ?R]"
    by simp
  with v r show ?thesis
    by (simp add: prod_eq_iff)
qed

section \<open>Tool discovery\<close>

lemma collect_tools_ok:
  "\<forall>g \<in> set hs. \<not> getTools_throws g \<Longrightarrow>
   collect_tools hs tools = Inr (tools @ concat (map tools_of hs))"
proof (induction hs arbitrary: tools)
  case Nil
  then show ?case by simp
next
  case (Cons h hs)
  then show ?case
    by (auto simp: getTools_throws_def tools_of_def split: option.splits sum.splits)
qed

lemma collect_tools_throws:
  "\<forall>g \<in> set hsa. \<not> getTools_throws g \<Longrightarrow> getTools h = Some (Inl e) \<Longrightarrow>
   collect_tools (hsa @ h # hsb) tools = Inl e"
proof (induction hsa arbitrary: tools)
  case Nil
  then show ?case by simp
next
  case (Cons g hsa)
  then show ?case
    by (auto simp: getTools_throws_def split: option.splits sum.splits)
qed

lemma new_server_handlers:
  "new_server rest p rem cfg = Inr srv \<Longrightarrow>
   handlers srv = [NoteHandler rest p rem cfg, SearchHandler rest p, ProjectHandler rest p,
                   StatsHandler rest p, CrossReferenceHandler rest p]"
  by (auto simp: new_server_def split: sum.splits)

text \<open>
  C4, as amended. When the \<^verbatim>\<open>getTools\<close> of a handler object throws, \<^verbatim>\<open>ListTools\<close>
  throws the error of the first such object; when none throws, it returns all the
  tools in registration order. The five handlers of the server never throw there, so
  the server's \<^verbatim>\<open>ListTools\<close> always returns their tools.
\<close>

theorem ListTools_throws_or_concatenates:
  "((\<forall>g \<in> set hsa. \<not> getTools_throws g) \<and> getTools h = Some (Inl e) \<longrightarrow>
       ListTools (hsa @ h # hsb) = Inl e)
   \<and> ((\<forall>g \<in> set hs. \<not> getTools_throws g) \<longrightarrow> ListTools hs = Inr (concat (map tools_of hs)))
   \<and> (new_server rest p rem cfg = Inr srv \<longrightarrow>
        ListTools (handlers srv) =
          Inr (note_getTools @ search_getTools @ project_getTools @ stats_getTools @ cross_getTools))"
proof (intro conjI impI)
  assume "(\<forall>g \<in> set hsa. \<not> getTools_throws g) \<and> getTools h = Some (Inl e)"
  then show "ListTools (hsa @ h # hsb) = Inl e"
    by (simp add: ListTools_def collect_tools_throws)
next
  assume "\<forall>g \<in> set hs. \<not> getTools_throws g"
  then show "ListTools hs = Inr (concat (map tools_of hs))"
    by (simp add: ListTools_def collect_tools_ok)
next
  assume "new_server rest p rem cfg = Inr srv"
  then have "handlers srv = [NoteHandler rest p rem cfg, SearchHandler rest p, ProjectHandler rest p,
                   StatsHandler rest p, CrossReferenceHandler rest p]"
    by (rule new_server_handlers)
  then show "ListTools (handlers srv) =
          Inr (note_getTools @ search_getTools @ project_getTools @ stats_getTools @ cross_getTools)"
    by (simp add: ListTools_def NoteHandler_def SearchHandler_def ProjectHandler_def StatsHandler_def
        CrossReferenceHandler_def)
qed

theorem ListTools_throws_or_concatenates_witness:
  "ListTools ([ProjectHandler scenario_rest scenario_platform] @ broken_provider
              # [StatsHandler scenario_rest scenario_platform]) = Inl (Error ''enumeration failed'')
   \<and> ListTools [ProjectHandler scenario_rest scenario_platform, StatsHandler scenario_rest scenario_platform] =
       Inr (project_getTools @ stats_getTools)
   \<and> ListTools (handlers (scenario_server scenario_rest)) =
       Inr (note_getTools @ search_getTools @ project_getTools @ stats_getTools @ cross_getTools)"
proof -
  have ok: "\<not> getTools_throws (ProjectHandler scenario_rest scenario_platform)"
    "\<not> getTools_throws (StatsHandler scenario_rest scenario_platform)"
    by (simp_all add: getTools_throws_def ProjectHandler_def StatsHandler_def)
  have b: "getTools broken_provider = Some (Inl (Error ''enumeration failed''))"
    by (simp add: broken_provider_def)
  have t: "tools_of (ProjectHandler scenario_rest scenario_platform) = project_getTools"
    "tools_of (StatsHandler scenario_rest scenario_platform) = stats_getTools"
    by (simp_all add: tools_of_def ProjectHandler_def StatsHandler_def)
  have n: "new_server scenario_rest scenario_platform remote_note scenario_config =
             Inr (scenario_server scenario_rest)"
    by (simp add: new_server_def server_currentProject_def extractProjectFromApiKey_def
        scenario_config_def config_js_def truthy_str_def scenario_server_def)
  note inst = ListTools_throws_or_concatenates
    [where hsa = "[ProjectHandler scenario_rest scenario_platform]" and h = broken_provider
       and e = "Error ''enumeration failed''" and hsb = "[StatsHandler scenario_rest scenario_platform]"
       and hs = "[ProjectHandler scenario_rest scenario_platform, StatsHandler scenario_rest scenario_platform]"
       and rest = scenario_rest and p = scenario_platform and rem = remote_note
       and cfg = scenario_config and srv = "scenario_server scenario_rest"]
  from inst ok b t n show ?thesis
    by simp
qed

theorem ListTools_broken_provider_counterexample:
  "ListTools [broken_provider] = Inl (Error ''enumeration failed'')
   \<and> ListTools [broken_provider] \<noteq> Inr []"
  by (simp add: ListTools_def broken_provider_def)

section \<open>Tool dispatch\<close>

lemma find_and_call_unclaimed:
  "\<forall>h \<in> set hs. \<not> claims_tool h name \<Longrightarrow>
   find_and_call hs name args ctx w = (Inl (Error (''Unknown tool: '' @ name)), w)"
  by (induction hs) (auto simp: claims_tool_def io_throw_def)

lemma requests_log: "requests (snd (log p cfg level message w)) = requests w"
  by (simp add: log_def)

text \<open>
  C7. When no handler of the server claims the tool name, \<^verbatim>\<open>CallTool\<close> returns (it does
  not throw) an envelope with \<^verbatim>\<open>isError: true\<close> whose JSON body holds the message
  \<^verbatim>\<open>Unknown tool: <name>\<close>, the tool name itself and a timestamp. It writes one log line
  when logging is enabled, and issues no request.
\<close>

theorem CallTool_unknown_tool:
  assumes "\<forall>h \<in> set (handlers srv). \<not> claims_tool h name"
  shows "CallTool p srv name args w =
           (Inr \<lparr>content = [\<lparr>item_type = ''text'',
                              item_text = JsonText (Obj [(''error'', Str (''Unknown tool: '' @ name)),
                                                         (''tool'', Str name),
                                                         (''timestamp'', Str (now p))])\<rparr>],
                  isError = Some True\<rparr>,
            if logging_enabled (srv_config srv)
            then w @ [Logged (now p) ''error''
                        (''Tool execution failed: '' @ name @ '' - Unknown tool: '' @ name)]
            else w)
       \<and> requests (snd (CallTool p srv name args w)) = requests w"
  using assms
  by (simp add: CallTool_def io_catch_def find_and_call_unclaimed io_return_def io_bind_def log_def
      error_envelope_def Error_def)

lemma scenario_project: "server_currentProject scenario_config = Inr ''myproject''"
  by (simp add: server_currentProject_def extractProjectFromApiKey_def scenario_config_def
      config_js_def truthy_str_def)

lemma new_scenario_server:
  "new_server rest scenario_platform remote_note scenario_config = Inr (scenario_server rest)"
  by (simp add: new_server_def scenario_project scenario_server_def)

lemma scenario_server_unclaimed:
  "name \<notin> set (note_tools @ search_tools @ project_tools @ stats_tools @ cross_tools) \<Longrightarrow>
   \<forall>h \<in> set (handlers (scenario_server rest)). \<not> claims_tool h name"
  by (simp add: scenario_server_def claims_tool_def NoteHandler_def SearchHandler_def
      ProjectHandler_def StatsHandler_def CrossReferenceHandler_def)

theorem CallTool_unknown_tool_witness:
  "CallTool scenario_platform (scenario_server scenario_rest) ''no_such_tool'' None [] =
     (Inr \<lparr>content = [\<lparr>item_type = ''text'',
                        item_text = JsonText (Obj [(''error'', Str ''Unknown tool: no_such_tool''),
                                                   (''tool'', Str ''no_such_tool''),
                                                   (''timestamp'', Str ''2025-01-01T00:00:00.000Z'')])\<rparr>],
            isError = Some True\<rparr>,
      [Logged ''2025-01-01T00:00:00.000Z'' ''error''
         ''Tool execution failed: no_such_tool - Unknown tool: no_such_tool''])"
proof -
  have "''no_such_tool'' \<notin> set (note_tools @ search_tools @ project_tools @ stats_tools @ cross_tools)"
    by (simp add: note_tools_def search_tools_def project_tools_def stats_tools_def cross_tools_def)
  then have "\<forall>h \<in> set (handlers (scenario_server scenario_rest)). \<not> claims_tool h ''no_such_tool''"
    by (rule scenario_server_unclaimed)
  from CallTool_unknown_tool [OF this, of scenario_platform None "[]"]
  show ?thesis
    by (simp add: scenario_platform_def scenario_server_def scenario_config_def config_js_def)
qed

section \<open>Validation of required arguments\<close>

lemma validateParams_missing:
  "filter (is_missing kvs) keys \<noteq> [] \<Longrightarrow>
   validateParams (Some kvs) keys =
     Inl (Error (''Missing required parameters: '' @ join (filter (is_missing kvs) keys) '', ''))"
  by (simp add: validateParams_def Let_def)

lemma validated_missing:
  "filter (is_missing kvs) keys \<noteq> [] \<Longrightarrow>
   validated (Some kvs) keys m w =
     (Inl (Error (''Missing required parameters: '' @ join (filter (is_missing kvs) keys) '', '')), w)"
  by (simp add: validated_def io_bind_def io_lift_def validateParams_missing)

lemma getNote_missing:
  "filter (is_missing kvs) [''id''] \<noteq> [] \<Longrightarrow>
   getNote p rem cfg project kvs w =
     (Inl (Error (''Missing required parameters: '' @ join (filter (is_missing kvs) [''id'']) '', '')), w)"
  by (simp add: getNote_def io_bind_def io_lift_def validateParams_missing del: filter.simps)

lemma caught_missing:
  "m w = (Inl e, w) \<Longrightarrow>
   io_catch m (\<lambda>error. io_return (formatError p error name)) w = (Inr (formatError p e name), w)"
  by (simp add: io_catch_def io_return_def)

lemma note_validation:
  assumes "t \<in> set note_getTools" and "filter (is_missing kvs) (required t) \<noteq> []"
  shows "note_handleTool rest p rem cfg (tool_name t) (Some kvs) ctx w =
           (Inr (formatError p (Error (''Missing required parameters: ''
                   @ join (filter (is_missing kvs) (required t)) '', '')) (tool_name t)), w)"
proof -
  have "note_switch rest p rem cfg (tool_name t) kvs ctx w =
          (Inl (Error (''Missing required parameters: ''
                   @ join (filter (is_missing kvs) (required t)) '', '')), w)"
    using assms
    by (auto simp: note_getTools_def note_switch_def validated_missing getNote_missing
        simp del: filter.simps)
  then show ?thesis
    by (simp add: note_handleTool_def io_bind_def io_lift_def read_params_def caught_missing)
qed

lemma search_validation:
  assumes "t \<in> set search_getTools" and "filter (is_missing kvs) (required t) \<noteq> []"
  shows "search_handleTool rest p (tool_name t) (Some kvs) ctx w =
           (Inr (formatError p (Error (''Missing required parameters: ''
                   @ join (filter (is_missing kvs) (required t)) '', '')) (tool_name t)), w)"
proof -
  have "search_switch rest (tool_name t) kvs ctx w =
          (Inl (Error (''Missing required parameters: ''
                   @ join (filter (is_missing kvs) (required t)) '', '')), w)"
    using assms
    by (auto simp: search_getTools_def search_switch_def validated_missing simp del: filter.simps)
  then show ?thesis
    by (simp add: search_handleTool_def io_bind_def io_lift_def read_params_def caught_missing)
qed

lemma project_validation:
  assumes "t \<in> set project_getTools" and "filter (is_missing kvs) (required t) \<noteq> []"
  shows "project_handleTool rest p (tool_name t) (Some kvs) ctx w =
           (Inr (formatError p (Error (''Missing required parameters: ''
                   @ join (filter (is_missing kvs) (required t)) '', '')) (tool_name t)), w)"
  using assms by (auto simp: project_getTools_def)

lemma stats_validation:
  assumes "t \<in> set stats_getTools" and "filter (is_missing kvs) (required t) \<noteq> []"
  shows "stats_handleTool rest p (tool_name t) (Some kvs) ctx w =
           (Inr (formatError p (Error (''Missing required parameters: ''
                   @ join (filter (is_missing kvs) (required t)) '', '')) (tool_name t)), w)"
proof -
  have "stats_switch rest (tool_name t) (Some kvs) ctx w =
          (Inl (Error (''Missing required parameters: ''
                   @ join (filter (is_missing kvs) (required t)) '', '')), w)"
    using assms
    by (auto simp: stats_getTools_def stats_switch_def validated_missing simp del: filter.simps)
  then show ?thesis
    by (simp add: stats_handleTool_def caught_missing)
qed

lemma cross_validation:
  assumes "t \<in> set cross_getTools" and "filter (is_missing kvs) (required t) \<noteq> []"
  shows "cross_handleTool rest p (tool_name t) (Some kvs) ctx w =
           (Inr (formatError p (Error (''Missing required parameters: ''
                   @ join (filter (is_missing kvs) (required t)) '', '')) (tool_name t)), w)"
proof -
  have "cross_switch rest (tool_name t) kvs ctx w =
          (Inl (Error (''Missing required parameters: ''
                   @ join (filter (is_missing kvs) (required t)) '', '')), w)"
    using assms
    by (auto simp: cross_getTools_def cross_switch_def validated_missing simp del: filter.simps)
  then show ?thesis
    by (simp add: cross_handleTool_def io_bind_def io_lift_def read_params_def caught_missing)
qed

lemma str_includes_self: "str_includes (k @ b) k"
proof (cases "k @ b")
  case Nil
  then show ?thesis by simp
next
  case (Cons x xs)
  then have "take (length k) (x # xs) = k"
    by (metis append_eq_conv_conj)
  with Cons show ?thesis by simp
qed

lemma str_includes_infix: "str_includes (a @ k @ b) k"
  by (induction a) (simp_all add: str_includes_self)

lemma join_holds_member: "k \<in> set xs \<Longrightarrow> \<exists>a b. join xs sep = a @ k @ b"
proof (induction xs sep rule: join.induct)
  case (1 sep)
  then show ?case by simp
next
  case (2 x sep)
  then have "join [x] sep = [] @ k @ []" by simp
  then show ?case by blast
next
  case (3 x y ys sep)
  show ?case
  proof (cases "k = x")
    case True
    then have "join (x # y # ys) sep = [] @ k @ (sep @ join (y # ys) sep)" by simp
    then show ?thesis by blast
  next
    case False
    with 3 obtain a b where "join (y # ys) sep = a @ k @ b" by auto
    then have "join (x # y # ys) sep = (x @ sep @ a) @ k @ b" by simp
    then show ?thesis by blast
  qed
qed

lemma message_names_missing:
  "k \<in> set missing \<Longrightarrow> str_includes (''Missing required parameters: '' @ join missing '', '') k"
proof -
  assume "k \<in> set missing"
  then obtain a b where "join missing '', '' = a @ k @ b"
    using join_holds_member by blast
  then have "''Missing required parameters: '' @ join missing '', '' =
               (''Missing required parameters: '' @ a) @ k @ b"
    by simp
  then show ?thesis
    using str_includes_infix [of "''Missing required parameters: '' @ a" k b] by simp
qed

lemma server_handler_validation:
  assumes "h \<in> set [NoteHandler rest p rem cfg, SearchHandler rest p, ProjectHandler rest p,
                     StatsHandler rest p, CrossReferenceHandler rest p]"
    and "t \<in> set (tools_of h)" and "filter (is_missing kvs) (required t) \<noteq> []"
  shows "handleTool h (tool_name t) (Some kvs) ctx w =
           (Inr (formatError p (Error (''Missing required parameters: ''
                   @ join (filter (is_missing kvs) (required t)) '', '')) (tool_name t)), w)"
proof -
  consider "h = NoteHandler rest p rem cfg" | "h = SearchHandler rest p" | "h = ProjectHandler rest p"
    | "h = StatsHandler rest p" | "h = CrossReferenceHandler rest p"
    using assms(1) by auto
  then show ?thesis
  proof cases
    case 1
    with assms(2) have "t \<in> set note_getTools" by (simp add: tools_of_def NoteHandler_def)
    with assms(3) 1 show ?thesis by (simp add: note_validation NoteHandler_def)
  next
    case 2
    with assms(2) have "t \<in> set search_getTools" by (simp add: tools_of_def SearchHandler_def)
    with assms(3) 2 show ?thesis by (simp add: search_validation SearchHandler_def)
  next
    case 3
    with assms(2) have "t \<in> set project_getTools" by (simp add: tools_of_def ProjectHandler_def)
    with assms(3) 3 show ?thesis by (simp add: project_validation ProjectHandler_def)
  next
    case 4
    with assms(2) have "t \<in> set stats_getTools" by (simp add: tools_of_def StatsHandler_def)
    with assms(3) 4 show ?thesis by (simp add: stats_validation StatsHandler_def)
  next
    case 5
    with assms(2) have "t \<in> set cross_getTools" by (simp add: tools_of_def CrossReferenceHandler_def)
    with assms(3) 5 show ?thesis by (simp add: cross_validation CrossReferenceHandler_def)
  qed
qed

text \<open>
  C9. For every handler of the server and every tool it declares: when the argument
  object lacks (or holds \<^verbatim>\<open>undefined\<close> for) a key of the \<^verbatim>\<open>required\<close> array of the tool's
  schema, \<^verbatim>\<open>handleTool\<close> ends with the error \<^verbatim>\<open>Missing required parameters: ...\<close> in the
  handler's error shape, the message holds every missing key, and the net trace is
  unchanged: no request was issued.
\<close>

theorem required_arguments_checked_before_any_request:
  assumes "new_server rest p rem cfg = Inr srv"
    and "h \<in> set (handlers srv)" and "t \<in> set (tools_of h)"
    and "missing = filter (is_missing kvs) (required t)" and "missing \<noteq> []"
  shows "handleTool h (tool_name t) (Some kvs) ctx w =
           (Inr (formatError p (Error (''Missing required parameters: '' @ join missing '', ''))
                   (tool_name t)), w)
       \<and> (\<forall>k \<in> set missing. str_includes (''Missing required parameters: '' @ join missing '', '') k)"
proof
  have "h \<in> set [NoteHandler rest p rem cfg, SearchHandler rest p, ProjectHandler rest p,
                  StatsHandler rest p, CrossReferenceHandler rest p]"
    using assms(1,2) new_server_handlers by fastforce
  then show "handleTool h (tool_name t) (Some kvs) ctx w =
           (Inr (formatError p (Error (''Missing required parameters: '' @ join missing '', ''))
                   (tool_name t)), w)"
    using assms(3,4,5) server_handler_validation by blast
  show "\<forall>k \<in> set missing. str_includes (''Missing required parameters: '' @ join missing '', '') k"
    using message_names_missing by blast
qed

theorem required_arguments_checked_before_any_request_witness:
  "handleTool (NoteHandler scenario_rest scenario_platform remote_note scenario_config)
       ''get_note'' (Some [(''projectId'', Str ''other'')]) \<lparr>currentProject = ''myproject''\<rparr> [] =
     (Inr (Obj [(''success'', Bool False), (''error'', Str ''Missing required parameters: id''),
                (''tool'', Str ''get_note''), (''timestamp'', Str ''2025-01-01T00:00:00.000Z'')]), [])
   \<and> str_includes ''Missing required parameters: id'' ''id''"
proof -
  let ?h = "NoteHandler scenario_rest scenario_platform remote_note scenario_config"
  let ?t = "\<lparr>tool_name = ''get_note'', required = [''id'']\<rparr>"
  let ?kvs = "[(''projectId'', Str ''other'')]"
  have a: "?h \<in> set (handlers (scenario_server scenario_rest))"
    by (simp add: scenario_server_def)
  have b: "?t \<in> set (tools_of ?h)"
    by (simp add: tools_of_def NoteHandler_def note_getTools_def)
  have c: "[''id''] = filter (is_missing ?kvs) (required ?t)"
    by (simp add: is_missing_def)
  have d: "[''id''] \<noteq> []"
    by simp
  from required_arguments_checked_before_any_request [OF new_scenario_server a b c d,
      of "\<lparr>currentProject = ''myproject''\<rparr>" "[]"]
  show ?thesis
    by (simp add: formatError_def Error_def scenario_platform_def)
qed

section \<open>The end-to-end scenario\<close>

lemma scenario_platform_simps:
  "encodeURIComponent scenario_platform x = x"
  "toStr scenario_platform (Num 5) = ''5''"
  "toStr scenario_platform (Str x) = x"
  "now scenario_platform = ''2025-01-01T00:00:00.000Z''"
  by (simp_all add: scenario_platform_def)

lemma scenario_getNote:
  "getNote scenario_platform remote_note scenario_config (Str ''myproject'') [(''id'', Num 5)] [] =
     (Inl (TypeError ''this.responseBuilder.buildResponse is not a function''),
      [Fetched \<lparr>url = ''http://localhost:3000/api/projects/myproject/notes/5'', f_method = ''GET'',
                f_headers = [(''Content-Type'', Some ''application/json''),
                             (''X-API-Key'', Some ''employee-myproject-secret123'')],
                f_body = None, f_timeout = None\<rparr>])"
proof -
  have v: "validateParams (Some [(''id'', Num 5)]) [''id''] = Inr ()"
    by (simp add: validateParams_def is_missing_def)
  have r: "base_fetchOptions scenario_config ''/api/projects/myproject/notes/5'' no_options =
           \<lparr>url = ''http://localhost:3000/api/projects/myproject/notes/5'', f_method = ''GET'',
                f_headers = [(''Content-Type'', Some ''application/json''),
                             (''X-API-Key'', Some ''employee-myproject-secret123'')],
                f_body = None, f_timeout = None\<rparr>"
    by (simp add: base_fetchOptions_def scenario_config_def config_js_def no_options_def
        truthy_str_def base_body_def)
  have i: "str_includes ''application/json; charset=utf-8'' ''application/json''"
    by simp
  have a: "base_apiRequest scenario_platform remote_note scenario_config
             ''/api/projects/myproject/notes/5'' no_options [] =
           (Inr (Obj [(''data'', Obj [(''id'', Num 5), (''title'', Str ''x'')])]),
            [Fetched (base_fetchOptions scenario_config ''/api/projects/myproject/notes/5'' no_options)])"
    using i
    by (simp add: base_apiRequest_def io_catch_def base_try_def fetch_def remote_note_def ok_def
        truthy_str_def del: str_includes.simps)
  have c: "call_method ResponseBuilder ''this.responseBuilder'' ''buildResponse''
             [Obj [(''id'', Num 5), (''title'', Str ''x'')], Str ''get_note''] =
           Inl (TypeError ''this.responseBuilder.buildResponse is not a function'')"
    by (simp add: call_method_def ResponseBuilder_def)
  show ?thesis
    unfolding getNote_def
    by (simp add: io_bind_def io_lift_def v a r c get_prop_def obj_get_def getProjectEndpoint_def
        scenario_platform_simps)
qed

text \<open>
  C1. The session started with the credential \<^verbatim>\<open>employee-myproject-secret123\<close> and no
  explicit project has the project \<^verbatim>\<open>myproject\<close>. \<^verbatim>\<open>CallTool("get_note", {id: 5})\<close>
  against a remote API that answers \<^verbatim>\<open>{data: {id: 5, title: "x"}}\<close> issues the one
  request and returns an envelope with no \<^verbatim>\<open>isError\<close>, but its body is the handler's
  error object, not the note: \<^verbatim>\<open>getNote\<close> calls \<^verbatim>\<open>buildResponse\<close>, which the portable
  \<^verbatim>\<open>ResponseBuilder\<close> does not define.
\<close>

theorem get_note_end_to_end:
  "new_server rest scenario_platform remote_note scenario_config = Inr (scenario_server rest)
   \<and> srv_project (scenario_server rest) = ''myproject''
   \<and> CallTool scenario_platform (scenario_server rest) ''get_note'' (Some [(''id'', Num 5)]) [] =
       (Inr \<lparr>content =
               [\<lparr>item_type = ''text'',
                 item_text = JsonText (Obj
                   [(''success'', Bool False),
                    (''error'', Str ''this.responseBuilder.buildResponse is not a function''),
                    (''tool'', Str ''get_note''),
                    (''timestamp'', Str ''2025-01-01T00:00:00.000Z'')])\<rparr>],
              isError = None\<rparr>,
        [Fetched \<lparr>url = ''http://localhost:3000/api/projects/myproject/notes/5'', f_method = ''GET'',
                  f_headers = [(''Content-Type'', Some ''application/json''),
                               (''X-API-Key'', Some ''employee-myproject-secret123'')],
                  f_body = None, f_timeout = None\<rparr>])"
proof -
  have p: "project_of [(''id'', Num 5)] \<lparr>currentProject = ''myproject''\<rparr> = Str ''myproject''"
    by (simp add: project_of_def obj_get_def truthy_def)
  have h: "note_handleTool rest scenario_platform remote_note scenario_config ''get_note''
             (Some [(''id'', Num 5)]) \<lparr>currentProject = ''myproject''\<rparr> [] =
           (Inr (formatError scenario_platform
                   (TypeError ''this.responseBuilder.buildResponse is not a function'') ''get_note''),
            [Fetched \<lparr>url = ''http://localhost:3000/api/projects/myproject/notes/5'', f_method = ''GET'',
                  f_headers = [(''Content-Type'', Some ''application/json''),
                               (''X-API-Key'', Some ''employee-myproject-secret123'')],
                  f_body = None, f_timeout = None\<rparr>])"
    by (simp add: note_handleTool_def io_bind_def io_lift_def read_params_def note_switch_def p
        scenario_getNote io_catch_def io_return_def)
  have c: "CallTool scenario_platform (scenario_server rest) ''get_note'' (Some [(''id'', Num 5)]) [] =
       (Inr \<lparr>content =
               [\<lparr>item_type = ''text'',
                 item_text = JsonText (formatError scenario_platform
                   (TypeError ''this.responseBuilder.buildResponse is not a function'') ''get_note'')\<rparr>],
              isError = None\<rparr>,
        [Fetched \<lparr>url = ''http://localhost:3000/api/projects/myproject/notes/5'', f_method = ''GET'',
                  f_headers = [(''Content-Type'', Some ''application/json''),
                               (''X-API-Key'', Some ''employee-myproject-secret123'')],
                  f_body = None, f_timeout = None\<rparr>])"
    by (simp add: CallTool_def scenario_server_def NoteHandler_def note_tools_def h io_catch_def
        io_bind_def io_return_def)
  show ?thesis
    using c by (simp add: new_scenario_server scenario_server_def formatError_def TypeError_def
        scenario_platform_simps)
qed

end
